theory Spec2Isabelle
  imports Main "HOL-Library.Word" "HOL-Library.Monad_Syntax"
begin

unbundle bit_operations_syntax

section \<open>Arbitrary-precision integers (Go's math/big)\<close>

text \<open>
  A \<^verbatim>\<open>*big.Int\<close> is modelled by the integer it points to. The operations follow the
  documentation of math/big. A computation of type \<open>'a option\<close> yields \<open>None\<close> where the Go
  code does not produce a value: \<^verbatim>\<open>Mod\<close> panics on a zero modulus, and \<^verbatim>\<open>Exp\<close> returns nil
  for a negative exponent whose base has no inverse (the nil is dereferenced by the next
  operation on it).
\<close>

type_synonym byte = "8 word"

fun natBitLen :: "nat \<Rightarrow> nat" where
  "natBitLen n = (if n = 0 then 0 else Suc (natBitLen (n div 2)))"

declare natBitLen.simps [simp del]

definition bigBitLen :: "int \<Rightarrow> nat" where
  \<comment> \<open>\<^verbatim>\<open>BitLen\<close>: the length of the absolute value in bits; the bit length of 0 is 0.\<close>
  "bigBitLen x = natBitLen (nat \<bar>x\<bar>)"

fun natBytes :: "nat \<Rightarrow> byte list" where
  "natBytes n = (if n = 0 then [] else natBytes (n div 256) @ [of_nat (n mod 256)])"

declare natBytes.simps [simp del]

definition bigBytes :: "int \<Rightarrow> byte list" where
  \<comment> \<open>\<^verbatim>\<open>Bytes\<close>: the absolute value as a big-endian byte slice, without leading zeros.\<close>
  "bigBytes x = natBytes (nat \<bar>x\<bar>)"

definition bigSetBytes :: "byte list \<Rightarrow> int" where
  \<comment> \<open>\<^verbatim>\<open>SetBytes\<close>: the bytes read as a big-endian unsigned integer.\<close>
  "bigSetBytes bs = int (foldl (\<lambda>acc b. acc * 256 + unat b) 0 bs)"

definition bigMod :: "int \<Rightarrow> int \<Rightarrow> int option" where
  \<comment> \<open>\<^verbatim>\<open>Mod\<close>: Euclidean modulus, \<open>0 \<le> r < |y|\<close>; a zero modulus panics.\<close>
  "bigMod x y = (if y = 0 then None else Some (x mod \<bar>y\<bar>))"

definition bigModInverse :: "int \<Rightarrow> int \<Rightarrow> int option" where
  \<comment> \<open>\<^verbatim>\<open>ModInverse\<close> for a non-zero modulus: the inverse in \<open>[0, |n|)\<close>, nil when there is none.\<close>
  "bigModInverse g n =
     (let m = \<bar>n\<bar> in find (\<lambda>i. (g * i) mod m = 1 mod m) (map int [0..<nat m]))"

definition bigExp :: "int \<Rightarrow> int \<Rightarrow> int \<Rightarrow> int option" where
  \<comment> \<open>\<^verbatim>\<open>Exp\<close>: \<open>x ^ y mod |m|\<close>. If \<open>m = 0\<close> the result is \<open>x ^ y\<close>, and 1 when \<open>y \<le> 0\<close>.
      If \<open>m \<noteq> 0\<close> and \<open>y < 0\<close> the inverse of \<open>x\<close> is raised to \<open>|y|\<close>; nil when \<open>x\<close> and
      \<open>m\<close> are not relatively prime.\<close>
  "bigExp x y m =
     (if m = 0 then Some (if y \<le> 0 then 1 else x ^ nat y)
      else if y < 0 then
        (case bigModInverse x m of
           None \<Rightarrow> None
         | Some i \<Rightarrow> Some (i ^ nat (- y) mod \<bar>m\<bar>))
      else Some (x ^ nat y mod \<bar>m\<bar>))"

definition concatenateBigInts :: "int \<Rightarrow> int \<Rightarrow> int" where
  \<comment> \<open>\<^verbatim>\<open>result.Lsh(first, uint(second.BitLen())); result.Add(result, second)\<close>\<close>
  "concatenateBigInts first second = first * 2 ^ bigBitLen second + second"

section \<open>Library functions taken as parameters\<close>

text \<open>
  \<^verbatim>\<open>time.Time\<close> values are only created by \<^verbatim>\<open>time.Now\<close> and \<^verbatim>\<open>AddDate\<close>, stored, and serialised
  with \<^verbatim>\<open>MarshalBinary\<close>. A time is modelled by its seconds, nanoseconds and zone offset;
  the clock reading is an argument of each function that calls \<^verbatim>\<open>time.Now\<close>. SHA-256,
  \<^verbatim>\<open>MarshalBinary\<close> and \<^verbatim>\<open>AddDate\<close> are fields of the record \<open>Lib\<close>, which every function
  that uses them takes as its first argument; no theorem depends on what they compute.
\<close>

record Time =
  t_sec :: int
  t_nsec :: int
  t_zone :: int


record Lib =
  Sum256 :: "byte list \<Rightarrow> byte list"
  MarshalBinary :: "Time \<Rightarrow> byte list"
  AddDate :: "Time \<Rightarrow> int \<Rightarrow> int \<Rightarrow> int \<Rightarrow> Time"

section \<open>Data model (package core)\<close>

text \<open>
  Field names carry a prefix for their struct, since several structs share the names
  \<^verbatim>\<open>P\<close>, \<^verbatim>\<open>Q\<close>, \<^verbatim>\<open>N\<close>, \<^verbatim>\<open>E\<close>, \<^verbatim>\<open>Pub\<close> and \<^verbatim>\<open>Priv\<close>. \<^verbatim>\<open>Second\<close> and \<^verbatim>\<open>Msg\<close> are nil until Payment
  and are options; the other pointer fields hold 0 until the step that sets them.
\<close>

record SchemeParams =
  scheme_Q :: int
  scheme_P :: int
  scheme_G :: int

record RsaKey =
  key_P :: int
  key_Q :: int
  key_N :: int
  key_D :: int
  key_E :: int

record Bank =
  bank_Scheme :: SchemeParams
  bank_Key :: RsaKey
  bank_Priv :: int
  bank_Pub :: int

record BankProfile =
  bp_Scheme :: SchemeParams
  bp_Pub :: int
  bp_N :: int
  bp_E :: int

record Client =
  cl_Bank :: BankProfile
  cl_Key :: RsaKey
  cl_TradeId :: int
  cl_Priv :: int
  cl_Pub :: int
  cl_Credential :: int
  cl_Contract :: int

record ClientProfile =
  cp_PrivStamp :: int
  cp_IdentityHash :: int
  cp_TradeId :: int
  cp_Pub :: int
  cp_N :: int
  cp_E :: int

record ClientInfo =
  ci_Profile :: ClientProfile
  ci_K :: int
  ci_S :: int
  ci_Credential :: int
  ci_Contract :: int

record CoinRandom =
  rnd_E :: int
  rnd_L :: int
  rnd_LInv :: int
  rnd_Beta1 :: int
  rnd_Beta1Inv :: int
  rnd_Beta2 :: int
  rnd_Y :: int
  rnd_YInv :: int

record CoinElgamal =
  eg_Priv :: int
  eg_Pub :: int
  eg_First :: int
  eg_Second :: "int option"
  eg_Msg :: "int option"

record CoinParams =
  par_A :: int
  par_ALower :: int
  par_C :: int
  par_A1 :: int
  par_C1 :: int
  par_A2 :: int
  par_R :: int
  par_Expiration :: Time

record Coin =
  coin_Random :: CoinRandom
  coin_Elgamal :: CoinElgamal
  coin_Params :: CoinParams

record CoinProfile =
  prof_Pub :: int
  prof_First :: int
  prof_A :: int
  prof_R :: int
  prof_A2 :: int
  prof_Expiration :: Time
  prof_Second :: "int option"
  prof_Msg :: "int option"

datatype error = ErrIdentityMismatch | ErrRandom

section \<open>Setup and account generation\<close>

definition Bank_Profile :: "Bank \<Rightarrow> BankProfile" where
  "Bank_Profile bank =
     \<lparr>bp_Scheme = bank_Scheme bank, bp_Pub = bank_Pub bank,
      bp_N = key_N (bank_Key bank), bp_E = key_E (bank_Key bank)\<rparr>"

definition identityDigest :: "Lib \<Rightarrow> int \<Rightarrow> int \<Rightarrow> int" where
  \<comment> \<open>\<^verbatim>\<open>sha256.Sum256(append(pub.Bytes(), privStamp.Bytes()...))\<close> read with \<^verbatim>\<open>SetBytes\<close>\<close>
  "identityDigest lib pub privStamp =
     bigSetBytes (Sum256 lib (bigBytes pub @ bigBytes privStamp))"

definition Client_Profile :: "Lib \<Rightarrow> Client \<Rightarrow> ClientProfile option" where
  "Client_Profile lib client =
     do {
       privStamp \<leftarrow> bigExp (scheme_G (bp_Scheme (cl_Bank client))) (cl_Priv client)
                      (scheme_P (bp_Scheme (cl_Bank client)));
       Some \<lparr>cp_PrivStamp = privStamp,
             cp_IdentityHash = identityDigest lib (cl_Pub client) privStamp,
             cp_TradeId = cl_TradeId client,
             cp_Pub = cl_Pub client,
             cp_N = key_N (cl_Key client),
             cp_E = key_E (cl_Key client)\<rparr>
     }"

definition randInt :: "int option \<Rightarrow> int \<Rightarrow> (error + int) option" where
  \<comment> \<open>\<^verbatim>\<open>rand.Int(rand.Reader, bound)\<close>: panics when \<open>bound \<le> 0\<close>; otherwise the outcome of
      the draw, which is the first argument: \<open>None\<close> when the reader failed, else the
      number drawn.\<close>
  "randInt draw bound =
     (if bound \<le> 0 then None
      else Some (case draw of None \<Rightarrow> Inl ErrRandom | Some k \<Rightarrow> Inr k))"

definition NewClient :: "Lib \<Rightarrow> Bank \<Rightarrow> ClientProfile \<Rightarrow> int option \<Rightarrow> (error + ClientInfo) option" where
  "NewClient lib bank profile draw =
     (if cp_IdentityHash profile \<noteq> identityDigest lib (cp_Pub profile) (cp_PrivStamp profile)
      then Some (Inl ErrIdentityMismatch)
      else
        do {
          r \<leftarrow> randInt draw (scheme_P (bank_Scheme bank));
          case r of
            Inl err \<Rightarrow> Some (Inl err)
          | Inr k \<Rightarrow>
              do {
                s \<leftarrow> bigMod (concatenateBigInts (cp_Pub profile) k) (scheme_P (bank_Scheme bank));
                credential \<leftarrow> bigExp (scheme_G (bank_Scheme bank)) s (scheme_P (bank_Scheme bank));
                contract \<leftarrow> bigExp credential (bank_Priv bank) (scheme_P (bank_Scheme bank));
                Some (Inr \<lparr>ci_Profile = profile, ci_K = k, ci_S = s,
                           ci_Credential = credential, ci_Contract = contract\<rparr>)
              }
        })"

definition SetCredentials :: "Client \<Rightarrow> int \<Rightarrow> int \<Rightarrow> Client" where
  "SetCredentials client credential contract =
     client\<lparr>cl_Credential := credential, cl_Contract := contract\<rparr>"

section \<open>Withdrawal\<close>




definition coinDigest :: "Lib \<Rightarrow> int \<Rightarrow> int \<Rightarrow> int \<Rightarrow> int" where
  \<comment> \<open>the digest of \<^verbatim>\<open>First.Bytes()\<close>, \<^verbatim>\<open>Pub.Bytes()\<close>, \<^verbatim>\<open>A.Bytes()\<close> written to one buffer\<close>
  "coinDigest lib first pub A =
     bigSetBytes (Sum256 lib (bigBytes first @ bigBytes pub @ bigBytes A))"

definition expirationDigest :: "Lib \<Rightarrow> Time \<Rightarrow> int" where
  "expirationDigest lib t = bigSetBytes (Sum256 lib (MarshalBinary lib t))"



definition NewCoinResponse :: "Lib \<Rightarrow> Time \<Rightarrow> Bank \<Rightarrow> ClientInfo \<Rightarrow> int \<Rightarrow> int \<Rightarrow> (Time \<times> int \<times> int) option" where
  \<comment> \<open>\<open>now\<close> is the reading of \<^verbatim>\<open>time.Now()\<close>\<close>
  "NewCoinResponse lib now bank client ALower C =
     (let Expiration = AddDate lib now 0 1 1;
          hash = expirationDigest lib Expiration
      in do {
        A1 \<leftarrow> bigExp (ALower * hash) (key_D (bank_Key bank)) (key_N (bank_Key bank));
        C1 \<leftarrow> bigMod (C * bank_Priv bank + ci_S client) (scheme_Q (bank_Scheme bank));
        Some (Expiration, A1, C1)
      })"


definition Coin_Profile :: "Coin \<Rightarrow> CoinProfile" where
  "Coin_Profile coin =
     \<lparr>prof_Pub = eg_Pub (coin_Elgamal coin),
      prof_First = eg_First (coin_Elgamal coin),
      prof_A = par_A (coin_Params coin),
      prof_R = par_R (coin_Params coin),
      prof_A2 = par_A2 (coin_Params coin),
      prof_Expiration = par_Expiration (coin_Params coin),
      prof_Second = eg_Second (coin_Elgamal coin),
      prof_Msg = eg_Msg (coin_Elgamal coin)\<rparr>"

section \<open>Payment\<close>

definition VerifyProperties :: "Lib \<Rightarrow> CoinProfile \<Rightarrow> BankProfile \<Rightarrow> bool option" where
  "VerifyProperties lib coin bank =
     (let hash = expirationDigest lib (prof_Expiration coin) in
      do {
        left \<leftarrow> bigMod (prof_A coin * hash) (bp_N bank);
        right \<leftarrow> bigExp (prof_A2 coin) (bp_E bank) (bp_N bank);
        if left \<noteq> right then Some False
        else do {
          left2 \<leftarrow> bigExp (scheme_G (bp_Scheme bank)) (prof_R coin) (scheme_P (bp_Scheme bank));
          let hash1 = coinDigest lib (prof_First coin) (prof_Pub coin) (prof_A coin);
          zh \<leftarrow> bigExp (bp_Pub bank) hash1 (scheme_P (bp_Scheme bank));
          right2 \<leftarrow> bigMod (prof_A coin * zh) (scheme_P (bp_Scheme bank));
          Some (left2 = right2)
        }
      })"

definition Stamp :: "Lib \<Rightarrow> Time \<Rightarrow> CoinProfile \<Rightarrow> BankProfile \<Rightarrow> ClientProfile \<Rightarrow> int \<times> CoinProfile" where
  \<comment> \<open>returns the message and the profile with \<^verbatim>\<open>Msg\<close> set; \<open>now\<close> is the transaction date\<close>
  "Stamp lib now coin bank client =
     (let msg = bigSetBytes (Sum256 lib
                  (bigBytes (prof_Pub coin) @ bigBytes (prof_First coin) @
                   bigBytes (cp_TradeId client) @ MarshalBinary lib now))
      in (msg, coin\<lparr>prof_Msg := Some msg\<rparr>))"

definition SignCoin :: "Client \<Rightarrow> Coin \<Rightarrow> int \<Rightarrow> (int \<times> Coin) option" where
  \<comment> \<open>returns \<^verbatim>\<open>second\<close> and the coin with \<^verbatim>\<open>Msg\<close> and \<^verbatim>\<open>Second\<close> set\<close>
  "SignCoin client coin msg =
     (let pMinus1 = scheme_P (bp_Scheme (cl_Bank client)) - 1;
          elgamal = coin_Elgamal coin
      in do {
        second \<leftarrow> bigMod ((msg - eg_Priv elgamal * eg_First elgamal) * rnd_YInv (coin_Random coin))
                    pMinus1;
        Some (second, coin\<lparr>coin_Elgamal := elgamal\<lparr>eg_Msg := Some msg, eg_Second := Some second\<rparr>\<rparr>)
      })"

definition VerifyElgamal :: "CoinProfile \<Rightarrow> BankProfile \<Rightarrow> int \<Rightarrow> bool option" where
  \<comment> \<open>a nil \<^verbatim>\<open>Msg\<close> is dereferenced by \<^verbatim>\<open>Exp\<close>; the assignment \<^verbatim>\<open>coin.Second = second\<close> is
      local to the Merchant's copy, which no caller reads afterwards\<close>
  "VerifyElgamal coin bank second =
     (let P = scheme_P (bp_Scheme bank) in
      do {
        au \<leftarrow> bigExp (prof_Pub coin) (prof_First coin) P;
        ug \<leftarrow> bigExp (prof_First coin) second P;
        left \<leftarrow> bigMod (au * ug) P;
        msg \<leftarrow> prof_Msg coin;
        right \<leftarrow> bigExp (scheme_G (bp_Scheme bank)) msg P;
        Some (left = right)
      })"

section \<open>Profile hashes\<close>

definition truncateDigest :: "byte list \<Rightarrow> 32 word" where
  \<comment> \<open>the first eight digest bytes packed little-endian into an \<^verbatim>\<open>int64\<close>, returned as \<^verbatim>\<open>uint32\<close>\<close>
  "truncateDigest hashBytes =
     (let hash :: 64 word =
            ucast (hashBytes ! 0) OR push_bit 8 (ucast (hashBytes ! 1)) OR
            push_bit 16 (ucast (hashBytes ! 2)) OR push_bit 24 (ucast (hashBytes ! 3)) OR
            push_bit 32 (ucast (hashBytes ! 4)) OR push_bit 40 (ucast (hashBytes ! 5)) OR
            push_bit 48 (ucast (hashBytes ! 6)) OR push_bit 56 (ucast (hashBytes ! 7))
      in ucast hash)"

definition CoinProfile_Hash :: "Lib \<Rightarrow> CoinProfile \<Rightarrow> 32 word" where
  "CoinProfile_Hash lib coin =
     truncateDigest (Sum256 lib
       (bigBytes (prof_Pub coin) @ bigBytes (prof_First coin) @ bigBytes (prof_A coin) @
        bigBytes (prof_R coin) @ bigBytes (prof_A2 coin) @
        MarshalBinary lib (prof_Expiration coin)))"

definition ClientProfile_Hash :: "Lib \<Rightarrow> ClientProfile \<Rightarrow> 32 word" where
  "ClientProfile_Hash lib client =
     truncateDigest (Sum256 lib
       (bigBytes (cp_PrivStamp client) @ bigBytes (cp_IdentityHash client) @
        bigBytes (cp_TradeId client) @ bigBytes (cp_Pub client) @
        bigBytes (cp_N client) @ bigBytes (cp_E client)))"

section \<open>The database engine\<close>

text \<open>
  Both stores keep their tables in SQLite. A table is the list of its rows, each with its
  \<^verbatim>\<open>INTEGER PRIMARY KEY AUTOINCREMENT\<close> id, and the largest id ever given out. Columns written
  with \<^verbatim>\<open>toString\<close> and read with \<^verbatim>\<open>fromString\<close> hold the integer itself. Every store
  method runs in one transaction on one connection, on which \<^verbatim>\<open>openDatabase\<close> has turned
  foreign keys on: a method that returns an error has rolled back and leaves the tables
  as they were. Failures of the engine itself (no connection, a full disk) are not modelled.
\<close>

record 'a table =
  tbl_rows :: "(int \<times> 'a) list"
  tbl_seq :: int

definition emptyTable :: "'a table" where
  "emptyTable = \<lparr>tbl_rows = [], tbl_seq = 0\<rparr>"

definition insertRow :: "'a table \<Rightarrow> 'a \<Rightarrow> int \<times> 'a table" where
  \<comment> \<open>the id of the new row and the table with it\<close>
  "insertRow t r =
     (let i = tbl_seq t + 1 in (i, \<lparr>tbl_rows = tbl_rows t @ [(i, r)], tbl_seq = i\<rparr>))"

definition selectFirst :: "('a \<Rightarrow> bool) \<Rightarrow> 'a table \<Rightarrow> (int \<times> 'a) option" where
  \<comment> \<open>\<^verbatim>\<open>QueryRow\<close>: the first row that matches; \<open>None\<close> is \<^verbatim>\<open>sql.ErrNoRows\<close> at \<^verbatim>\<open>Scan\<close>\<close>
  "selectFirst P t = find (\<lambda>(i, r). P r) (tbl_rows t)"

definition rowIds :: "'a table \<Rightarrow> int list" where
  "rowIds t = map fst (tbl_rows t)"

definition insertChild :: "int list \<Rightarrow> (int \<times> 'a) table \<Rightarrow> int \<Rightarrow> 'a \<Rightarrow> int \<Rightarrow> ((int \<times> 'a) table \<times> int) option" where
  \<comment> \<open>\<^verbatim>\<open>INSERT\<close> into a table whose first column is
      \<^verbatim>\<open>UNIQUE ON CONFLICT IGNORE REFERENCES parent(id)\<close>. The result is the table and the
      connection's last insert rowid: both unchanged when the row is ignored; \<open>None\<close> when
      the foreign key fails.\<close>
  "insertChild parents t ref r lastRowid =
     (if ref \<in> set (map (fst \<circ> snd) (tbl_rows t)) then Some (t, lastRowid)
      else if ref \<notin> set parents then None
      else (let (i, t') = insertRow t (ref, r) in Some (t', i)))"

datatype storeError = ErrNoRows | ErrExistingClient | ErrExistingCoin | ErrConstraint

datatype Operation_Type =
  Operation_Withdrawal | Operation_Payment | Operation_Deposit | Operation_Exchange

section \<open>The Bank's store\<close>

record BankEntry =
  be_name :: string
  be_identity :: string
  be_bank :: Bank

record ClientInfoEntry =
  cie_hash :: "32 word"
  cie_info :: ClientInfo
  cie_balance :: "64 word"

record CoinProfileEntry =
  cpe_hash :: "32 word"
  cpe_coin :: CoinProfile
  cpe_operation :: Operation_Type
  cpe_client :: "32 word"
  cpe_date :: Time

record BankStore =
  bs_Bank :: "BankEntry table"
  bs_ClientInfo :: "ClientInfoEntry table"
  bs_CoinProfile :: "CoinProfileEntry table"
  bs_Name :: string
  bs_identity :: string

definition WriteBank :: "BankStore \<Rightarrow> Bank \<Rightarrow> string \<Rightarrow> storeError option \<times> BankStore" where
  "WriteBank store bank name =
     (let store1 = store\<lparr>bs_Name := name\<rparr> in
      case selectFirst (\<lambda>r. be_identity r = bs_identity store1) (bs_Bank store1) of
        Some found \<Rightarrow> (None, store1)
      | None \<Rightarrow>
          (None, store1\<lparr>bs_Bank := snd (insertRow (bs_Bank store1)
             \<lparr>be_name = bs_Name store1, be_identity = bs_identity store1, be_bank = bank\<rparr>)\<rparr>))"

definition ReadBank :: "BankStore \<Rightarrow> Bank option \<times> storeError option" where
  "ReadBank store =
     (case selectFirst (\<lambda>r. be_identity r = bs_identity store) (bs_Bank store) of
        None \<Rightarrow> (None, Some ErrNoRows)
      | Some (i, r) \<Rightarrow> (Some (be_bank r), None))"

definition WriteClientInfo :: "Lib \<Rightarrow> BankStore \<Rightarrow> ClientInfo \<Rightarrow> storeError option \<times> BankStore" where
  "WriteClientInfo lib store client =
     (let h = ClientProfile_Hash lib (ci_Profile client) in
      case selectFirst (\<lambda>r. cie_hash r = h) (bs_ClientInfo store) of
        Some found \<Rightarrow> (Some ErrExistingClient, store)
      | None \<Rightarrow>
          (None, store\<lparr>bs_ClientInfo := snd (insertRow (bs_ClientInfo store)
             \<lparr>cie_hash = h, cie_info = client, cie_balance = 100\<rparr>)\<rparr>))"

definition ReadClientInfo :: "Lib \<Rightarrow> BankStore \<Rightarrow> ClientProfile \<Rightarrow> ClientInfo option \<times> storeError option" where
  \<comment> \<open>the profile of the result is the argument; \<open>K\<close>, \<open>S\<close>, \<open>Credential\<close> and \<open>Contract\<close> are
      the row's\<close>
  "ReadClientInfo lib store client =
     (case selectFirst (\<lambda>r. cie_hash r = ClientProfile_Hash lib client) (bs_ClientInfo store) of
        None \<Rightarrow> (None, Some ErrNoRows)
      | Some (i, r) \<Rightarrow>
          (Some \<lparr>ci_Profile = client, ci_K = ci_K (cie_info r), ci_S = ci_S (cie_info r),
                 ci_Credential = ci_Credential (cie_info r),
                 ci_Contract = ci_Contract (cie_info r)\<rparr>, None))"

definition ReadClientBalance :: "Lib \<Rightarrow> BankStore \<Rightarrow> ClientProfile \<Rightarrow> 64 word \<times> storeError option" where
  "ReadClientBalance lib store client =
     (case selectFirst (\<lambda>r. cie_hash r = ClientProfile_Hash lib client) (bs_ClientInfo store) of
        None \<Rightarrow> (0, Some ErrNoRows)
      | Some (i, r) \<Rightarrow> (cie_balance r, None))"

definition UpdateClientBalance :: "Lib \<Rightarrow> BankStore \<Rightarrow> ClientProfile \<Rightarrow> 64 word \<Rightarrow> storeError option \<times> BankStore" where
  "UpdateClientBalance lib store client balance =
     (let h = ClientProfile_Hash lib client;
          t = bs_ClientInfo store
      in (None, store\<lparr>bs_ClientInfo := t\<lparr>tbl_rows :=
            map (\<lambda>(i, r). if cie_hash r = h then (i, r\<lparr>cie_balance := balance\<rparr>) else (i, r))
              (tbl_rows t)\<rparr>\<rparr>))"

definition WriteCoinProfile :: "Lib \<Rightarrow> Time \<Rightarrow> BankStore \<Rightarrow> CoinProfile \<Rightarrow> Operation_Type \<Rightarrow> ClientProfile \<Rightarrow> storeError option \<times> BankStore" where
  \<comment> \<open>\<open>now\<close> is the reading of \<^verbatim>\<open>time.Now()\<close> for the \<^verbatim>\<open>date\<close> column\<close>
  "WriteCoinProfile lib now store coin operation client =
     (let h = CoinProfile_Hash lib coin in
      case selectFirst (\<lambda>r. cpe_hash r = h) (bs_CoinProfile store) of
        Some found \<Rightarrow> (Some ErrExistingCoin, store)
      | None \<Rightarrow>
          (None, store\<lparr>bs_CoinProfile := snd (insertRow (bs_CoinProfile store)
             \<lparr>cpe_hash = h, cpe_coin = coin, cpe_operation = operation,
              cpe_client = ClientProfile_Hash lib client, cpe_date = now\<rparr>)\<rparr>))"

definition ReadCoinProfile :: "Lib \<Rightarrow> BankStore \<Rightarrow> CoinProfile \<Rightarrow> storeError option" where
  \<comment> \<open>\<^verbatim>\<open>sql.ErrNoRows\<close> when there is no row for the hash, nil when there is one\<close>
  "ReadCoinProfile lib store coin =
     (case selectFirst (\<lambda>r. cpe_hash r = CoinProfile_Hash lib coin) (bs_CoinProfile store) of
        None \<Rightarrow> Some ErrNoRows
      | Some found \<Rightarrow> None)"

section \<open>The Bank's handlers\<close>

text \<open>
  A connection is the list of messages the peer sends, in order, the list of messages the
  handler has sent, and whether the peer still reads. \<^verbatim>\<open>Decode\<close> into a variable of one
  type fails on a message of another type and at the end of the stream; \<^verbatim>\<open>Encode\<close> fails
  when the peer has closed. A handler ends in one of four ways: it runs to its last
  statement; it returns early after \<^verbatim>\<open>log.Print\<close>; it calls \<^verbatim>\<open>log.Fatalf\<close>, which writes the
  message and calls \<^verbatim>\<open>os.Exit(1)\<close>, so the process terminates; or it panics, which in a
  goroutine without \<^verbatim>\<open>recover\<close> terminates the process as well. The store a handler
  returns holds what its committed transactions wrote.
\<close>

datatype message =
  MsgBankProfile BankProfile
  | MsgClientProfile ClientProfile
  | MsgCredentials int int
  | MsgCoinRequest int int
  | MsgCoinResponse Time int int
  | MsgCoinProfile CoinProfile
  | MsgBigInt int
  | MsgAccept bool

record Conn =
  incoming :: "message list"
  sent :: "message list"
  peerOpen :: bool

datatype outcome = Finished | Returned | Fatal | Panicked

definition decodeClientProfile :: "Conn \<Rightarrow> (ClientProfile \<times> Conn) option" where
  "decodeClientProfile conn =
     (case incoming conn of
        MsgClientProfile c # rest \<Rightarrow> Some (c, conn\<lparr>incoming := rest\<rparr>)
      | _ \<Rightarrow> None)"

definition decodeCoinRequest :: "Conn \<Rightarrow> ((int \<times> int) \<times> Conn) option" where
  "decodeCoinRequest conn =
     (case incoming conn of
        MsgCoinRequest a c # rest \<Rightarrow> Some ((a, c), conn\<lparr>incoming := rest\<rparr>)
      | _ \<Rightarrow> None)"

definition decodeCoinProfile :: "Conn \<Rightarrow> (CoinProfile \<times> Conn) option" where
  "decodeCoinProfile conn =
     (case incoming conn of
        MsgCoinProfile c # rest \<Rightarrow> Some (c, conn\<lparr>incoming := rest\<rparr>)
      | _ \<Rightarrow> None)"

definition encode :: "Conn \<Rightarrow> message \<Rightarrow> Conn option" where
  "encode conn m = (if peerOpen conn then Some (conn\<lparr>sent := sent conn @ [m]\<rparr>) else None)"

definition WithdrawalServer_handleClient :: "Lib \<Rightarrow> Time \<Rightarrow> BankStore \<Rightarrow> Conn \<Rightarrow> outcome \<times> BankStore \<times> Conn" where
  "WithdrawalServer_handleClient lib now store conn =
     (case ReadBank store of
        (None, err) \<Rightarrow> (Fatal, store, conn)
      | (Some bank, Some err) \<Rightarrow> (Fatal, store, conn)
      | (Some bank, None) \<Rightarrow>
     (case decodeClientProfile conn of
        None \<Rightarrow> (Fatal, store, conn)
      | Some (client, conn1) \<Rightarrow>
     (case decodeCoinRequest conn1 of
        None \<Rightarrow> (Fatal, store, conn1)
      | Some ((ALower, C), conn2) \<Rightarrow>
     (case ReadClientInfo lib store client of
        (None, err) \<Rightarrow> (Fatal, store, conn2)
      | (Some clientInfo, err) \<Rightarrow>
          if err \<noteq> None \<and> err \<noteq> Some ErrNoRows then (Fatal, store, conn2)
          else
     (case ReadClientBalance lib store client of
        (balance, Some err) \<Rightarrow> (Fatal, store, conn2)
      | (balance, None) \<Rightarrow>
          if balance <s 1 then (Returned, store, conn2)
          else
     (case UpdateClientBalance lib store client (balance - 1) of
        (Some err, store1) \<Rightarrow> (Fatal, store1, conn2)
      | (None, store1) \<Rightarrow>
     (case NewCoinResponse lib now bank clientInfo ALower C of
        None \<Rightarrow> (Panicked, store1, conn2)
      | Some (Expiration, A1, C1) \<Rightarrow>
     (case encode conn2 (MsgCoinResponse Expiration A1 C1) of
        None \<Rightarrow> (Fatal, store1, conn2)
      | Some conn3 \<Rightarrow> (Finished, store1, conn3)))))))))"

definition DepositServer_handleClient :: "Lib \<Rightarrow> Time \<Rightarrow> BankStore \<Rightarrow> Conn \<Rightarrow> outcome \<times> BankStore \<times> Conn" where
  "DepositServer_handleClient lib now store conn =
     (case ReadBank store of
        (None, err) \<Rightarrow> (Fatal, store, conn)
      | (Some bank, Some err) \<Rightarrow> (Fatal, store, conn)
      | (Some bank, None) \<Rightarrow>
     (let bankProfile = Bank_Profile bank in
      case decodeClientProfile conn of
        None \<Rightarrow> (Fatal, store, conn)
      | Some (client, conn1) \<Rightarrow>
     (case ReadClientInfo lib store client of
        (None, err) \<Rightarrow> (Fatal, store, conn1)
      | (Some clientInfo, err) \<Rightarrow>
          if err \<noteq> None \<and> err \<noteq> Some ErrNoRows then (Fatal, store, conn1)
          else
     (case decodeCoinProfile conn1 of
        None \<Rightarrow> (Fatal, store, conn1)
      | Some (coin, conn2) \<Rightarrow>
     (case VerifyProperties lib coin bankProfile of
        None \<Rightarrow> (Panicked, store, conn2)
      | Some False \<Rightarrow> (Fatal, store, conn2)
      | Some True \<Rightarrow>
     (let err = ReadCoinProfile lib store coin in
      if err \<noteq> Some ErrNoRows \<and> err \<noteq> None then (Fatal, store, conn2)
      else
     (case WriteCoinProfile lib now store coin Operation_Deposit client of
        (Some err, store1) \<Rightarrow> (Fatal, store1, conn2)
      | (None, store1) \<Rightarrow>
     (case ReadClientBalance lib store1 client of
        (balance, Some err) \<Rightarrow> (Fatal, store1, conn2)
      | (balance, None) \<Rightarrow>
     (case UpdateClientBalance lib store1 client (balance + 1) of
        (Some err, store2) \<Rightarrow> (Fatal, store2, conn2)
      | (None, store2) \<Rightarrow>
     (case encode conn2 (MsgAccept True) of
        None \<Rightarrow> (Fatal, store2, conn2)
      | Some conn3 \<Rightarrow> (Finished, store2, conn3)))))))))))"

section \<open>The Client's wallet\<close>

text \<open>
  The balances are SQLite integers; the model's are unbounded, which is what SQLite
  computes as long as they stay within 64 bits.
\<close>

record ClientEntry =
  ce_bank :: string
  ce_TradeId :: int
  ce_Priv :: int
  ce_Pub :: int
  ce_Credential :: int
  ce_Contract :: int
  ce_localBalance :: int
  ce_remoteBalance :: int

record WalletDB =
  w_Client :: "ClientEntry table"
  w_BankProfile :: "(int \<times> BankProfile) table"
  w_RsaKey :: "(int \<times> RsaKey) table"
  w_Coin :: "(int \<times> 32 word) table"
  w_CoinRandom :: "(int \<times> CoinRandom) table"
  w_CoinElgamal :: "(int \<times> CoinElgamal) table"
  w_CoinParams :: "(int \<times> CoinParams) table"
  w_lastRowid :: int

record ClientStore =
  cs_db :: WalletDB
  cs_clientId :: int
  cs_BankName :: string
  cs_LocalBalance :: int
  cs_RemoteBalance :: int

definition emptyWallet :: WalletDB where
  "emptyWallet =
     \<lparr>w_Client = emptyTable, w_BankProfile = emptyTable, w_RsaKey = emptyTable,
      w_Coin = emptyTable, w_CoinRandom = emptyTable, w_CoinElgamal = emptyTable,
      w_CoinParams = emptyTable, w_lastRowid = 0\<rparr>"

definition ClientStore_New :: "string \<Rightarrow> ClientStore" where
  \<comment> \<open>a store on a new database file, with \<^verbatim>\<open>BankName\<close> set as the callers do\<close>
  "ClientStore_New bankName =
     \<lparr>cs_db = emptyWallet, cs_clientId = 0, cs_BankName = bankName,
      cs_LocalBalance = 0, cs_RemoteBalance = 0\<rparr>"

definition WriteClient :: "ClientStore \<Rightarrow> Client \<Rightarrow> storeError option \<times> ClientStore" where
  "WriteClient store client =
     (let db = cs_db store in
      case selectFirst (\<lambda>r. ce_bank r = cs_BankName store) (w_Client db) of
        Some found \<Rightarrow> (None, store)
      | None \<Rightarrow>
          (let (clientId, clients) = insertRow (w_Client db)
                 \<lparr>ce_bank = cs_BankName store, ce_TradeId = cl_TradeId client,
                  ce_Priv = cl_Priv client, ce_Pub = cl_Pub client,
                  ce_Credential = cl_Credential client, ce_Contract = cl_Contract client,
                  ce_localBalance = 0, ce_remoteBalance = 100\<rparr>
           in case (do {
                (profiles, l1) \<leftarrow> insertChild (rowIds clients) (w_BankProfile db) clientId
                                    (cl_Bank client) clientId;
                (keys, l2) \<leftarrow> insertChild (rowIds clients) (w_RsaKey db) clientId
                                (cl_Key client) l1;
                Some (db\<lparr>w_Client := clients, w_BankProfile := profiles, w_RsaKey := keys,
                          w_lastRowid := l2\<rparr>)
              }) of
                None \<Rightarrow> (Some ErrConstraint, store)
              | Some db' \<Rightarrow> (None, store\<lparr>cs_db := db'\<rparr>)))"

definition ReadClient :: "ClientStore \<Rightarrow> Client option \<times> storeError option \<times> ClientStore" where
  \<comment> \<open>keeps the row's id and balances in the store before it reads the key and the profile\<close>
  "ReadClient store =
     (let db = cs_db store in
      case selectFirst (\<lambda>r. ce_bank r = cs_BankName store) (w_Client db) of
        None \<Rightarrow> (None, None, store)
      | Some (i, r) \<Rightarrow>
          (let store1 = store\<lparr>cs_clientId := i, cs_LocalBalance := ce_localBalance r,
                               cs_RemoteBalance := ce_remoteBalance r\<rparr>
           in case selectFirst (\<lambda>(c, k). c = i) (w_RsaKey db) of
                None \<Rightarrow> (None, Some ErrNoRows, store1)
              | Some (ki, (kc, key)) \<Rightarrow>
                  (case selectFirst (\<lambda>(c, b). c = i) (w_BankProfile db) of
                     None \<Rightarrow> (None, Some ErrNoRows, store1)
                   | Some (bi, (bc, bank)) \<Rightarrow>
                       (Some \<lparr>cl_Bank = bank, cl_Key = key, cl_TradeId = ce_TradeId r,
                              cl_Priv = ce_Priv r, cl_Pub = ce_Pub r,
                              cl_Credential = ce_Credential r,
                              cl_Contract = ce_Contract r\<rparr>, None, store1))))"

definition insertCoin :: "WalletDB \<Rightarrow> int \<Rightarrow> 32 word \<Rightarrow> WalletDB option" where
  \<comment> \<open>\<^verbatim>\<open>INSERT INTO Coin (client, hash)\<close>: ignored when the hash is in the table
      (\<^verbatim>\<open>UNIQUE ON CONFLICT IGNORE\<close>); \<open>None\<close> when no \<^verbatim>\<open>Client\<close> row has the id\<close>
  "insertCoin db client h =
     (if h \<in> set (map (snd \<circ> snd) (tbl_rows (w_Coin db))) then Some db
      else if client \<notin> set (rowIds (w_Client db)) then None
      else (let (i, coins) = insertRow (w_Coin db) (client, h)
            in Some (db\<lparr>w_Coin := coins, w_lastRowid := i\<rparr>)))"

definition addLocalBalance :: "WalletDB \<Rightarrow> int \<Rightarrow> int \<Rightarrow> WalletDB" where
  \<comment> \<open>\<^verbatim>\<open>UPDATE Client SET localBalance = localBalance + ? WHERE id = ?\<close>\<close>
  "addLocalBalance db client d =
     db\<lparr>w_Client := (w_Client db)\<lparr>tbl_rows :=
        map (\<lambda>(i, r). if i = client then (i, r\<lparr>ce_localBalance := ce_localBalance r + d\<rparr>)
                       else (i, r))
          (tbl_rows (w_Client db))\<rparr>\<rparr>"

definition addRemoteBalance :: "WalletDB \<Rightarrow> int \<Rightarrow> int \<Rightarrow> WalletDB" where
  "addRemoteBalance db client d =
     db\<lparr>w_Client := (w_Client db)\<lparr>tbl_rows :=
        map (\<lambda>(i, r). if i = client then (i, r\<lparr>ce_remoteBalance := ce_remoteBalance r + d\<rparr>)
                       else (i, r))
          (tbl_rows (w_Client db))\<rparr>\<rparr>"

definition WriteCoin :: "Lib \<Rightarrow> ClientStore \<Rightarrow> Coin \<Rightarrow> Operation_Type \<Rightarrow> storeError option \<times> ClientStore" where
  "WriteCoin lib store coin operation =
     (let db = cs_db store; client = cs_clientId store in
      case (do {
        db1 \<leftarrow> insertCoin db client (CoinProfile_Hash lib (Coin_Profile coin));
        let coinId = w_lastRowid db1;
        (randoms, l2) \<leftarrow> insertChild (rowIds (w_Coin db1)) (w_CoinRandom db1) coinId
                           (coin_Random coin) (w_lastRowid db1);
        (elgamals, l3) \<leftarrow> insertChild (rowIds (w_Coin db1)) (w_CoinElgamal db1) coinId
                            (coin_Elgamal coin) l2;
        (params, l4) \<leftarrow> insertChild (rowIds (w_Coin db1)) (w_CoinParams db1) coinId
                          (coin_Params coin) l3;
        let db4 = db1\<lparr>w_CoinRandom := randoms, w_CoinElgamal := elgamals,
                       w_CoinParams := params, w_lastRowid := l4\<rparr>;
        let db5 = addLocalBalance db4 client 1;
        Some (case operation of
                Operation_Withdrawal \<Rightarrow> addRemoteBalance db5 client (- 1)
              | _ \<Rightarrow> db5)
      }) of
        None \<Rightarrow> (Some ErrConstraint, store)
      | Some db' \<Rightarrow> (None, store\<lparr>cs_db := db'\<rparr>))"

definition deleteWhere :: "('a \<Rightarrow> bool) \<Rightarrow> 'a table \<Rightarrow> 'a table" where
  "deleteWhere P t = t\<lparr>tbl_rows := filter (\<lambda>(i, r). \<not> P r) (tbl_rows t)\<rparr>"

definition DeleteCoin :: "Lib \<Rightarrow> ClientStore \<Rightarrow> Coin \<Rightarrow> Operation_Type \<Rightarrow> storeError option \<times> ClientStore" where
  \<comment> \<open>\<^verbatim>\<open>DELETE FROM Coin WHERE hash = ?\<close> with \<^verbatim>\<open>ON DELETE CASCADE\<close> on the three tables
      that reference the coin's id\<close>
  "DeleteCoin lib store coin operation =
     (let db = cs_db store; client = cs_clientId store;
          h = CoinProfile_Hash lib (Coin_Profile coin);
          gone = map fst (filter (\<lambda>(i, (c, hh)). hh = h) (tbl_rows (w_Coin db)));
          db1 = db\<lparr>w_Coin := deleteWhere (\<lambda>(c, hh). hh = h) (w_Coin db),
                   w_CoinRandom := deleteWhere (\<lambda>(c, r). c \<in> set gone) (w_CoinRandom db),
                   w_CoinElgamal := deleteWhere (\<lambda>(c, r). c \<in> set gone) (w_CoinElgamal db),
                   w_CoinParams := deleteWhere (\<lambda>(c, r). c \<in> set gone) (w_CoinParams db)\<rparr>;
          db2 = addLocalBalance db1 client (- 1);
          db3 = (case operation of
                   Operation_Deposit \<Rightarrow> addRemoteBalance db2 client 1
                 | _ \<Rightarrow> db2)
      in (None, store\<lparr>cs_db := db3\<rparr>))"

definition localBalance :: "ClientStore \<Rightarrow> int option" where
  \<comment> \<open>the \<^verbatim>\<open>localBalance\<close> column of the store's client\<close>
  "localBalance store =
     map_option (\<lambda>(i, r). ce_localBalance r)
       (find (\<lambda>(i, r). i = cs_clientId store) (tbl_rows (w_Client (cs_db store))))"

definition coinCount :: "ClientStore \<Rightarrow> int" where
  \<comment> \<open>the number of \<^verbatim>\<open>Coin\<close> rows of the store's client, which is what \<^verbatim>\<open>ReadCoins\<close> returns\<close>
  "coinCount store =
     int (length (filter (\<lambda>(i, (c, h)). c = cs_clientId store) (tbl_rows (w_Coin (cs_db store)))))"

section \<open>Well-formed keys and honest draws\<close>

text \<open>
  The invariants of the data model that the key generators establish: the scheme's
  \<open>p = 2q + 1\<close> with both prime and \<open>g\<close> in \<open>[2, p - 1]\<close>; an RSA key \<open>n = P * Q\<close> of two
  distinct primes with \<open>e * d\<close> congruent to 1 modulo \<open>P - 1\<close> and modulo \<open>Q - 1\<close> (which
  holds when \<open>d\<close> inverts \<open>e\<close> modulo \<open>(P - 1) * (Q - 1)\<close>, and also modulo their least
  common multiple); the Bank's \<open>z = g ^ x mod p\<close> with \<open>x\<close> in \<open>[0, p)\<close>; and the draws of
  \<^verbatim>\<open>coin.random\<close>, non-negative and with the inverses its loops wait for.
\<close>

definition isPrime :: "nat \<Rightarrow> bool" where
  "isPrime p = (1 < p \<and> list_all (\<lambda>d. \<not> d dvd p) [2..<p])"

definition wfScheme :: "SchemeParams \<Rightarrow> bool" where
  "wfScheme s =
     (isPrime (nat (scheme_P s)) \<and> isPrime (nat (scheme_Q s)) \<and>
      scheme_P s = 2 * scheme_Q s + 1 \<and>
      2 \<le> scheme_G s \<and> scheme_G s \<le> scheme_P s - 1)"





section \<open>Example values\<close>

text \<open>
  Small concrete inputs on which the definitions are evaluated: a stand-in for the library
  record (a one-byte checksum padded to 32 bytes for the digest, three bytes for a
  marshalled time, months of 31 days for \<^verbatim>\<open>AddDate\<close>), the scheme \<open>q = 11\<close>, \<open>p = 23\<close> with
  \<open>g = 2\<close> of order 11, an RSA key with \<open>n = 5 * 7\<close>, and a Client registered with the
  randomizer \<open>k = 6\<close>. The second Bank differs in \<open>g = 5\<close>, which has order 22. The
  checksum is the last byte of the digest, so that digests are small numbers; the
  truncated profile hashes, which read the first bytes, are all 0 in the examples.
\<close>

definition exSum256 :: "byte list \<Rightarrow> byte list" where
  "exSum256 bs = replicate 31 0 @ [foldl (\<lambda>acc b. 3 * acc + b + 1) 0 bs]"

definition exLib :: Lib where
  "exLib =
     \<lparr>Sum256 = exSum256,
      MarshalBinary = (\<lambda>t. [of_int (t_sec t), of_int (t_nsec t), of_int (t_zone t)]),
      AddDate = (\<lambda>t y m d. t\<lparr>t_sec := t_sec t + 86400 * (365 * y + 31 * m + d)\<rparr>)\<rparr>"

definition exNow :: Time where
  "exNow = \<lparr>t_sec = 1700000000, t_nsec = 5, t_zone = 0\<rparr>"

definition exKey :: RsaKey where
  "exKey = \<lparr>key_P = 5, key_Q = 7, key_N = 35, key_D = 29, key_E = 5\<rparr>"

definition exBank :: Bank where
  "exBank = \<lparr>bank_Scheme = \<lparr>scheme_Q = 11, scheme_P = 23, scheme_G = 2\<rparr>,
             bank_Key = exKey, bank_Priv = 7, bank_Pub = 13\<rparr>"

definition exProfile :: ClientProfile where
  "exProfile = \<lparr>cp_PrivStamp = 8, cp_IdentityHash = 42, cp_TradeId = 12, cp_Pub = 10,
                cp_N = 33, cp_E = 3\<rparr>"

definition exInfo :: ClientInfo where
  "exInfo = \<lparr>ci_Profile = exProfile, ci_K = 6, ci_S = 17, ci_Credential = 18, ci_Contract = 6\<rparr>"

definition exClient :: Client where
  "exClient = \<lparr>cl_Bank = Bank_Profile exBank,
               cl_Key = \<lparr>key_P = 3, key_Q = 11, key_N = 33, key_D = 7, key_E = 3\<rparr>,
               cl_TradeId = 12, cl_Priv = 3, cl_Pub = 10, cl_Credential = 18, cl_Contract = 6\<rparr>"

definition exRandom :: CoinRandom where
  "exRandom = \<lparr>rnd_E = 9, rnd_L = 3, rnd_LInv = 12, rnd_Beta1 = 4, rnd_Beta1Inv = 3,
               rnd_Beta2 = 6, rnd_Y = 5, rnd_YInv = 9\<rparr>"

definition exCoin :: Coin where
  \<comment> \<open>the coin that \<open>exClient\<close> withdraws with the draws \<open>exRandom\<close> at \<open>exNow\<close>\<close>
  "exCoin =
     \<lparr>coin_Random = exRandom,
      coin_Elgamal = \<lparr>eg_Priv = 13, eg_Pub = 4, eg_First = 9, eg_Second = None, eg_Msg = None\<rparr>,
      coin_Params = \<lparr>par_A = 3, par_ALower = 29, par_C = 8, par_A1 = 7, par_C1 = 7,
                     par_A2 = 14, par_R = 1,
                     par_Expiration = \<lparr>t_sec = 1702764800, t_nsec = 5, t_zone = 0\<rparr>\<rparr>\<rparr>"






definition exPaidProfile :: CoinProfile where
  \<comment> \<open>the example coin's profile after a Payment stamped at second 1700000600\<close>
  "exPaidProfile = (Coin_Profile exCoin)\<lparr>prof_Second := Some 7, prof_Msg := Some 130\<rparr>"

definition exBankStore :: BankStore where
  \<comment> \<open>the Bank's store after \<open>WriteBank\<close> and the \<open>WriteClientInfo\<close> of the example Client\<close>
  "exBankStore =
     \<lparr>bs_Bank = \<lparr>tbl_rows = [(1, \<lparr>be_name = ''bancoco'', be_identity = ''main'',
                                      be_bank = exBank\<rparr>)], tbl_seq = 1\<rparr>,
      bs_ClientInfo = \<lparr>tbl_rows = [(1, \<lparr>cie_hash = 0, cie_info = exInfo,
                                            cie_balance = 100\<rparr>)], tbl_seq = 1\<rparr>,
      bs_CoinProfile = emptyTable,
      bs_Name = ''bancoco'', bs_identity = ''main''\<rparr>"

definition exBrokeStore :: BankStore where
  \<comment> \<open>the same store with the Client's balance set to 0\<close>
  "exBrokeStore =
     exBankStore\<lparr>bs_ClientInfo :=
       \<lparr>tbl_rows = [(1, \<lparr>cie_hash = 0, cie_info = exInfo, cie_balance = 0\<rparr>)], tbl_seq = 1\<rparr>\<rparr>"

definition exDepositedStore :: BankStore where
  \<comment> \<open>the store after the Deposit of the paid example coin\<close>
  "exDepositedStore =
     exBankStore\<lparr>bs_ClientInfo :=
       \<lparr>tbl_rows = [(1, \<lparr>cie_hash = 0, cie_info = exInfo, cie_balance = 101\<rparr>)], tbl_seq = 1\<rparr>,
       bs_CoinProfile :=
       \<lparr>tbl_rows = [(1, \<lparr>cpe_hash = 0, cpe_coin = exPaidProfile,
                            cpe_operation = Operation_Deposit, cpe_client = 0,
                            cpe_date = exNow\<rparr>)], tbl_seq = 1\<rparr>\<rparr>"

definition exWithdrawalConn :: Conn where
  "exWithdrawalConn =
     \<lparr>incoming = [MsgClientProfile exProfile, MsgCoinRequest 29 8], sent = [], peerOpen = True\<rparr>"

definition exDepositConn :: Conn where
  "exDepositConn =
     \<lparr>incoming = [MsgClientProfile exProfile, MsgCoinProfile exPaidProfile],
      sent = [], peerOpen = True\<rparr>"

definition exUnpaidProfile :: CoinProfile where
  \<comment> \<open>the example coin's profile with \<open>msg = 0\<close> and \<open>second = 0\<close>\<close>
  "exUnpaidProfile = (Coin_Profile exCoin)\<lparr>prof_Second := Some 0, prof_Msg := Some 0\<rparr>"

definition exUnpaidConn :: Conn where
  "exUnpaidConn =
     \<lparr>incoming = [MsgClientProfile exProfile, MsgCoinProfile exUnpaidProfile],
      sent = [], peerOpen = True\<rparr>"

definition exWallet :: ClientStore where
  \<comment> \<open>a new wallet after \<^verbatim>\<open>WriteClient\<close> and \<^verbatim>\<open>ReadClient\<close>\<close>
  "exWallet = snd (snd (ReadClient (snd (WriteClient (ClientStore_New ''bancoco'') exClient))))"

section \<open>Modular arithmetic\<close>

text \<open>
  Fermat's little theorem for \<open>isPrime\<close>, by induction with the binomial theorem, and what
  the protocol needs from it: exponents may be reduced modulo the order of the base, and
  raising to \<open>e * d\<close> is the identity modulo an RSA modulus.
\<close>

lemma isPrime_dvd:
  assumes "isPrime p" and "m dvd p"
  shows "m = 1 \<or> m = p"
proof (rule ccontr)
  assume neg: "\<not> (m = 1 \<or> m = p)"
  from assms(1) have p1: "1 < p" and all: "\<forall>d\<in>{2..<p}. \<not> d dvd p"
    by (auto simp: isPrime_def list_all_iff)
  from assms(2) p1 have "m \<noteq> 0" by (metis dvd_0_left_iff not_one_less_zero)
  moreover from assms(2) p1 have "m \<le> p" by (simp add: dvd_imp_le)
  ultimately have "m \<in> {2..<p}" using neg by auto
  with all assms(2) show False by blast
qed

lemma isPrime_coprime:
  assumes "isPrime p" and "\<not> p dvd k"
  shows "coprime p k"
proof (rule coprimeI)
  fix c assume "c dvd p" and "c dvd k"
  with isPrime_dvd[OF assms(1)] assms(2) show "is_unit c" by auto
qed

lemma isPrime_dvd_binomial:
  assumes "isPrime p" and "0 < k" and "k < p"
  shows "p dvd (p choose k)"
proof -
  obtain n where p: "p = Suc n" using assms by (cases p) auto
  obtain j where k: "k = Suc j" using assms by (cases k) auto
  have "Suc j * (Suc n choose Suc j) = Suc n * (n choose j)"
    by (rule Suc_times_binomial)
  then have "p dvd k * (p choose k)" unfolding p k by (metis dvd_triv_left)
  moreover have "\<not> p dvd k" using assms by (simp add: nat_dvd_not_less)
  then have "coprime p k" by (rule isPrime_coprime[OF assms(1)])
  ultimately show ?thesis by (simp add: coprime_dvd_mult_right_iff)
qed

lemma freshman:
  assumes "isPrime p"
  shows "(a + 1) ^ p mod p = (a ^ p + 1) mod (p::nat)"
proof -
  obtain n where p: "p = Suc n" using assms by (cases p) (auto simp: isPrime_def)
  have "(a + 1) ^ p = (\<Sum>k\<le>p. (p choose k) * a ^ k)"
    using binomial[of a 1 p] by simp
  also have "\<dots> = (\<Sum>k\<le>n. (p choose k) * a ^ k) + a ^ p"
    by (simp add: p)
  also have "(\<Sum>k\<le>n. (p choose k) * a ^ k) = 1 + (\<Sum>k\<in>{1..n}. (p choose k) * a ^ k)"
    by (simp add: atMost_atLeast0 sum.atLeast_Suc_atMost)
  finally have eq: "(a + 1) ^ p = (\<Sum>k\<in>{1..n}. (p choose k) * a ^ k) + (a ^ p + 1)" by simp
  have "p dvd (\<Sum>k\<in>{1..n}. (p choose k) * a ^ k)"
  proof (rule dvd_sum)
    fix k assume "k \<in> {1..n}"
    then have "p dvd (p choose k)" using isPrime_dvd_binomial[OF assms, of k] p by auto
    then show "p dvd (p choose k) * a ^ k" by simp
  qed
  then obtain M where "(\<Sum>k\<in>{1..n}. (p choose k) * a ^ k) = p * M" by (auto simp: dvd_def)
  with eq have "(a + 1) ^ p = p * M + (a ^ p + 1)" by simp
  then show ?thesis by simp
qed

lemma fermat_nat:
  assumes "isPrime p"
  shows "a ^ p mod p = a mod (p::nat)"
proof (induction a)
  case 0
  from assms have "0 < p" by (simp add: isPrime_def)
  then show ?case by (simp add: zero_power)
next
  case (Suc a)
  have "Suc a ^ p mod p = (a ^ p + 1) mod p" using freshman[OF assms, of a] by simp
  also have "\<dots> = (a ^ p mod p + 1) mod p" by (simp add: mod_simps)
  also have "\<dots> = (a mod p + 1) mod p" by (simp add: Suc.IH)
  also have "\<dots> = Suc a mod p" by (simp add: mod_simps)
  finally show ?case .
qed

lemma fermat_little_nat:
  assumes "isPrime p" and "\<not> p dvd a"
  shows "a ^ (p - 1) mod p = (1::nat)"
proof -
  from assms have p1: "1 < p" by (simp add: isPrime_def)
  have a0: "0 < a" using assms(2) by (cases a) auto
  have "a ^ p mod p = a mod p" by (rule fermat_nat[OF assms(1)])
  then have "int (a ^ p) mod int p = int a mod int p"
    by (metis zmod_int)
  then have "int p dvd int (a ^ p) - int a" by (simp add: mod_eq_dvd_iff)
  moreover have "int (a ^ p) - int a = int a * (int (a ^ (p - 1)) - 1)"
  proof -
    have "a ^ p = a * a ^ (p - 1)" using p1 by (cases p) auto
    then show ?thesis by (simp add: algebra_simps)
  qed
  ultimately have "int p dvd int a * (int (a ^ (p - 1)) - 1)" by simp
  moreover have "coprime (int p) (int a)"
    using isPrime_coprime[OF assms] by simp
  ultimately have "int p dvd int (a ^ (p - 1)) - 1"
    by (simp add: coprime_dvd_mult_right_iff)
  then have "int (a ^ (p - 1)) mod int p = 1 mod int p" by (simp add: mod_eq_dvd_iff)
  then have "int (a ^ (p - 1) mod p) = int (1 mod p)" by (simp only: zmod_int of_nat_1)
  then have "a ^ (p - 1) mod p = 1 mod p" by (simp only: of_nat_eq_iff)
  then show ?thesis using p1 by simp
qed

lemma power_mod_one:
  fixes g m :: int
  assumes "g ^ n mod m = 1 mod m"
  shows "(g ^ n) ^ k mod m = 1 mod m"
proof -
  have "(g ^ n) ^ k mod m = (g ^ n mod m) ^ k mod m" by (simp add: power_mod)
  also have "\<dots> = (1 mod m) ^ k mod m" by (simp only: assms)
  also have "\<dots> = 1 mod m" by (simp add: power_mod)
  finally show ?thesis .
qed

lemma power_mod_order:
  fixes g m :: int
  assumes "g ^ n mod m = 1 mod m"
  shows "g ^ a mod m = g ^ (a mod n) mod m"
proof -
  have "g ^ a = g ^ (a mod n + n * (a div n))" by simp
  also have "\<dots> = g ^ (a mod n) * (g ^ n) ^ (a div n)" by (simp only: power_add power_mult)
  finally have "g ^ a mod m = (g ^ (a mod n) * ((g ^ n) ^ (a div n) mod m)) mod m"
    by (simp add: mod_simps)
  also have "\<dots> = (g ^ (a mod n) * (1 mod m)) mod m"
    by (simp only: power_mod_one[OF assms])
  also have "\<dots> = g ^ (a mod n) mod m" by (simp add: mod_simps)
  finally show ?thesis .
qed

lemma power_mod_cong_exp:
  fixes g m n a b :: int
  assumes one: "g ^ nat n mod m = 1 mod m" and n: "0 < n"
    and a: "0 \<le> a" and b: "0 \<le> b" and ab: "a mod n = b mod n"
  shows "g ^ nat a mod m = g ^ nat b mod m"
proof -
  have "nat a mod nat n = nat (a mod n)" using a n by (simp add: nat_mod_distrib)
  moreover have "nat b mod nat n = nat (b mod n)" using b n by (simp add: nat_mod_distrib)
  ultimately have "nat a mod nat n = nat b mod nat n" using ab by simp
  then show ?thesis
    using power_mod_order[OF one, of "nat a"] power_mod_order[OF one, of "nat b"] by simp
qed

lemma fermat_little_int:
  fixes g p :: int
  assumes pr: "isPrime (nat p)" and g: "\<not> p dvd g"
  shows "g ^ nat (p - 1) mod p = 1"
proof -
  from pr have p1: "1 < p" by (simp add: isPrime_def)
  define a where "a = nat (g mod p)"
  have a: "int a = g mod p" using p1 by (simp add: a_def)
  have "\<not> p dvd g mod p" using g by (simp add: dvd_mod_iff)
  then have "\<not> int (nat p) dvd int a" using a p1 by simp
  then have nd: "\<not> nat p dvd a" by (metis int_dvd_int_iff)
  have "a ^ (nat p - 1) mod nat p = 1" by (rule fermat_little_nat[OF pr nd])
  then have "int (a ^ (nat p - 1) mod nat p) = 1" by simp
  then have "(g mod p) ^ (nat p - 1) mod p = 1" using p1 by (simp add: zmod_int a)
  moreover have "nat p - 1 = nat (p - 1)" using p1 by simp
  ultimately show ?thesis by (simp add: power_mod)
qed



section \<open>Withdrawal: honest coins verify\<close>

lemma bigSetBytes_nonneg: "0 \<le> bigSetBytes bs"
  by (simp add: bigSetBytes_def)

lemma bigMod_pos: "0 < m \<Longrightarrow> bigMod x m = Some (x mod m)"
  by (simp add: bigMod_def)

lemma bigExp_pos: "0 < m \<Longrightarrow> 0 \<le> y \<Longrightarrow> bigExp x y m = Some (x ^ nat y mod m)"
  by (simp add: bigExp_def)


lemma mod_affine_cong:
  fixes a a' b c q :: int
  assumes "a mod q = a' mod q"
  shows "(a * b + c) mod q = (a' * b + c) mod q"
proof -
  have "(a * b) mod q = (a' * b) mod q" using assms by (rule mod_mult_cong) simp
  then show ?thesis by (rule mod_add_cong) simp
qed



lemma isPrime_gt1: "isPrime (nat p) \<Longrightarrow> 1 < p"
  by (simp add: isPrime_def)








section \<open>Account generation and the Bank's response\<close>

text \<open>
  Claim C6. \<open>NewClient\<close> returns \<open>ErrIdentityMismatch\<close> exactly when the digest of
  \<open>pub\<close> and \<open>privStamp\<close> recomputed by the Bank differs from the profile's \<open>identityHash\<close>
  (whatever the random reader yields). For a Bank with a non-negative private key and a
  randomizer \<open>k\<close> drawn from \<open>[0, p)\<close>, a profile whose digest matches is accepted, and the
  \<open>ClientInfo\<close> of an accepted profile has \<open>K = k\<close>, \<open>S = ((pub << bitlen k) + k) mod p\<close>,
  credential \<open>g ^ S mod p\<close> and contract \<open>credential ^ x mod p\<close>.
\<close>

theorem NewClient_issues_credentials:
  assumes x: "0 \<le> bank_Priv bank"
    and k: "0 \<le> k" "k < scheme_P (bank_Scheme bank)"
  shows "(NewClient lib bank profile draw = Some (Inl ErrIdentityMismatch)) =
           (identityDigest lib (cp_Pub profile) (cp_PrivStamp profile) \<noteq> cp_IdentityHash profile) \<and>
         (identityDigest lib (cp_Pub profile) (cp_PrivStamp profile) = cp_IdentityHash profile \<longrightarrow>
           (\<exists>info. NewClient lib bank profile (Some k) = Some (Inr info))) \<and>
         (NewClient lib bank profile (Some k) = Some (Inr info) \<longrightarrow>
            ci_Profile info = profile \<and> ci_K info = k \<and>
            ci_S info = (cp_Pub profile * 2 ^ bigBitLen k + k) mod scheme_P (bank_Scheme bank) \<and>
            ci_Credential info =
              scheme_G (bank_Scheme bank) ^ nat (ci_S info) mod scheme_P (bank_Scheme bank) \<and>
            ci_Contract info =
              ci_Credential info ^ nat (bank_Priv bank) mod scheme_P (bank_Scheme bank))"
proof (intro conjI impI)
  show "(NewClient lib bank profile draw = Some (Inl ErrIdentityMismatch)) =
           (identityDigest lib (cp_Pub profile) (cp_PrivStamp profile) \<noteq> cp_IdentityHash profile)"
    by (auto simp: NewClient_def randInt_def split: option.splits sum.splits Option.bind_splits)
next
  assume "identityDigest lib (cp_Pub profile) (cp_PrivStamp profile) = cp_IdentityHash profile"
  then show "\<exists>info. NewClient lib bank profile (Some k) = Some (Inr info)"
    using x k by (simp add: NewClient_def randInt_def bigMod_pos bigExp_pos)
next
  assume acc: "NewClient lib bank profile (Some k) = Some (Inr info)"
  have p: "0 < scheme_P (bank_Scheme bank)" using k by simp
  from acc p x show "ci_Profile info = profile" "ci_K info = k"
    "ci_S info = (cp_Pub profile * 2 ^ bigBitLen k + k) mod scheme_P (bank_Scheme bank)"
    "ci_Credential info =
              scheme_G (bank_Scheme bank) ^ nat (ci_S info) mod scheme_P (bank_Scheme bank)"
    "ci_Contract info =
              ci_Credential info ^ nat (bank_Priv bank) mod scheme_P (bank_Scheme bank)"
    by (auto simp: NewClient_def randInt_def bigMod_pos bigExp_pos concatenateBigInts_def
        split: if_splits)
qed

text \<open>Witness for C6: the example profile with \<open>k = 6\<close>, and the same profile with a wrong hash.\<close>

theorem NewClient_issues_credentials_witness:
  "NewClient exLib exBank exProfile (Some 6) = Some (Inr exInfo) \<and>
   NewClient exLib exBank (exProfile\<lparr>cp_IdentityHash := 41\<rparr>) (Some 6) = Some (Inl ErrIdentityMismatch) \<and>
   ci_K exInfo = 6 \<and>
   ci_S exInfo = (cp_Pub exProfile * 2 ^ bigBitLen 6 + 6) mod 23 \<and>
   ci_Credential exInfo = 2 ^ nat (ci_S exInfo) mod 23 \<and>
   ci_Contract exInfo = ci_Credential exInfo ^ 7 mod 23"
proof -
  have x: "0 \<le> bank_Priv exBank" by code_simp
  have k: "(0::int) \<le> 6" "6 < scheme_P (bank_Scheme exBank)" by code_simp+
  have acc: "NewClient exLib exBank exProfile (Some 6) = Some (Inr exInfo)" by code_simp
  have bad: "identityDigest exLib (cp_Pub (exProfile\<lparr>cp_IdentityHash := 41\<rparr>))
      (cp_PrivStamp (exProfile\<lparr>cp_IdentityHash := 41\<rparr>)) \<noteq> cp_IdentityHash (exProfile\<lparr>cp_IdentityHash := 41\<rparr>)"
    by code_simp
  have vals: "scheme_P (bank_Scheme exBank) = 23" "scheme_G (bank_Scheme exBank) = 2"
    "nat (bank_Priv exBank) = 7" by code_simp+
  from NewClient_issues_credentials[OF x k, of exLib exProfile "Some 6" exInfo] acc
  have "ci_K exInfo = 6 \<and>
   ci_S exInfo = (cp_Pub exProfile * 2 ^ bigBitLen 6 + 6) mod 23 \<and>
   ci_Credential exInfo = 2 ^ nat (ci_S exInfo) mod 23 \<and>
   ci_Contract exInfo = ci_Credential exInfo ^ 7 mod 23"
    by (simp add: vals)
  moreover from NewClient_issues_credentials[OF x k, of exLib "exProfile\<lparr>cp_IdentityHash := 41\<rparr>" "Some 6" exInfo] bad
  have "NewClient exLib exBank (exProfile\<lparr>cp_IdentityHash := 41\<rparr>) (Some 6) = Some (Inl ErrIdentityMismatch)"
    by blast
  ultimately show ?thesis using acc by blast
qed

text \<open>
  Claim C7. For every request \<open>(a, C)\<close>, a Bank whose RSA modulus and scheme order are
  positive and whose private exponent is non-negative answers with the expiration
  \<open>AddDate now 0 1 1\<close> (the current time plus one month plus one day),
  \<open>A1 = (a * hash_t) ^ d mod n\<close> where \<open>hash_t\<close> is the digest of the marshalled expiration read
  as an integer, and \<open>C1 = (C * x + s) mod q\<close>.
\<close>

theorem NewCoinResponse_signs_request:
  assumes "0 < key_N (bank_Key bank)" and "0 \<le> key_D (bank_Key bank)"
    and "0 < scheme_Q (bank_Scheme bank)"
  shows "NewCoinResponse lib now bank client a C =
     Some (AddDate lib now 0 1 1,
           (a * bigSetBytes (Sum256 lib (MarshalBinary lib (AddDate lib now 0 1 1))))
              ^ nat (key_D (bank_Key bank)) mod key_N (bank_Key bank),
           (C * bank_Priv bank + ci_S client) mod scheme_Q (bank_Scheme bank))"
  using assms
  by (simp add: NewCoinResponse_def Let_def expirationDigest_def bigExp_def bigMod_def)

text \<open>Witness for C7: the response of the example Bank to the request \<open>(29, 8)\<close>.\<close>

theorem NewCoinResponse_signs_request_witness:
  "NewCoinResponse exLib exNow exBank exInfo 29 8 =
     Some (AddDate exLib exNow 0 1 1,
           (29 * bigSetBytes (Sum256 exLib (MarshalBinary exLib (AddDate exLib exNow 0 1 1)))) ^ 29 mod 35,
           (8 * 7 + 17) mod 11)"
proof -
  have h: "0 < key_N (bank_Key exBank)" "0 \<le> key_D (bank_Key exBank)"
    "0 < scheme_Q (bank_Scheme exBank)" by code_simp+
  have vals: "nat (key_D (bank_Key exBank)) = 29" "key_N (bank_Key exBank) = 35"
    "bank_Priv exBank = 7" "ci_S exInfo = 17" "scheme_Q (bank_Scheme exBank) = 11" by code_simp+
  from NewCoinResponse_signs_request[OF h, of exLib exNow exInfo 29 8]
  show ?thesis by (simp only: vals)
qed

section \<open>The coin's hash\<close>

text \<open>
  Claim C10. \<open>CoinProfile.Hash\<close> depends only on \<open>Pub\<close>, \<open>First\<close>, \<open>A\<close>, \<open>R\<close>, \<open>A2\<close> and
  \<open>Expiration\<close>: two profiles that agree on these six fields have the same hash, so setting
  \<open>Second\<close> and \<open>Msg\<close> during Payment leaves the hash, the key of the Bank's duplicate
  detection, unchanged.
\<close>

theorem CoinProfile_Hash_independent_of_payment:
  assumes "prof_Pub c1 = prof_Pub c2" and "prof_First c1 = prof_First c2"
    and "prof_A c1 = prof_A c2" and "prof_R c1 = prof_R c2" and "prof_A2 c1 = prof_A2 c2"
    and "prof_Expiration c1 = prof_Expiration c2"
  shows "CoinProfile_Hash lib c1 = CoinProfile_Hash lib c2 \<and>
         CoinProfile_Hash lib (c1\<lparr>prof_Second := second, prof_Msg := msg\<rparr>) = CoinProfile_Hash lib c1"
  using assms by (simp add: CoinProfile_Hash_def)

text \<open>Witness for C10: the example coin's profile before and after Payment fills in \<open>Second\<close> and \<open>Msg\<close>.\<close>

theorem CoinProfile_Hash_independent_of_payment_witness:
  "CoinProfile_Hash exLib (Coin_Profile exCoin) =
     CoinProfile_Hash exLib ((Coin_Profile exCoin)\<lparr>prof_Second := Some 3, prof_Msg := Some 200\<rparr>) \<and>
   prof_Msg (Coin_Profile exCoin) \<noteq> prof_Msg ((Coin_Profile exCoin)\<lparr>prof_Second := Some 3, prof_Msg := Some 200\<rparr>)"
proof -
  let ?c1 = "Coin_Profile exCoin"
  let ?c2 = "(Coin_Profile exCoin)\<lparr>prof_Second := Some 3, prof_Msg := Some 200\<rparr>"
  have "prof_Pub ?c1 = prof_Pub ?c2" "prof_First ?c1 = prof_First ?c2" "prof_A ?c1 = prof_A ?c2"
    "prof_R ?c1 = prof_R ?c2" "prof_A2 ?c1 = prof_A2 ?c2"
    "prof_Expiration ?c1 = prof_Expiration ?c2" by simp_all
  from CoinProfile_Hash_independent_of_payment[OF this, of exLib]
  have "CoinProfile_Hash exLib ?c1 = CoinProfile_Hash exLib ?c2" by blast
  moreover have "prof_Msg ?c1 \<noteq> prof_Msg ?c2" by (simp add: Coin_Profile_def exCoin_def)
  ultimately show ?thesis by blast
qed

section \<open>Payment: honest signatures verify\<close>

lemma elgamal_identity:
  fixes g p w y yInv d :: int
  assumes one: "g ^ nat (p - 1) mod p = 1 mod p" and p: "1 < p"
    and nn: "0 \<le> w" "0 \<le> y" "0 \<le> d"
    and inv: "(y * yInv) mod (p - 1) = 1 mod (p - 1)"
  shows "(((g ^ nat w mod p) ^ nat (g ^ nat y mod p) mod p) *
          ((g ^ nat y mod p) ^ nat (((d - w * (g ^ nat y mod p)) * yInv) mod (p - 1)) mod p)) mod p =
         g ^ nat d mod p"
proof -
  define n where "n = p - 1"
  define u where "u = g ^ nat y mod p"
  define c where "c = ((d - w * u) * yInv) mod n"
  define T where "T = w * u + y * c"
  have n0: "0 < n" using p by (simp add: n_def)
  have u0: "0 \<le> u" using p by (simp add: u_def)
  have c0: "0 \<le> c" using n0 by (simp add: c_def)
  have T0: "0 \<le> T" using nn u0 c0 by (simp add: T_def)
  have "(y * c) mod n = (y * ((d - w * u) * yInv)) mod n"
    unfolding c_def by (rule mod_mult_cong) simp_all
  also have "\<dots> = ((y * yInv) * (d - w * u) + 0) mod n"
    by (simp add: algebra_simps)
  also have "\<dots> = (1 * (d - w * u) + 0) mod n"
    by (rule mod_affine_cong) (simp add: inv n_def)
  finally have yc: "(y * c) mod n = (d - w * u) mod n" by simp
  have "T mod n = (y * c + w * u) mod n" by (simp add: T_def add.commute)
  also have "\<dots> = ((d - w * u) + w * u) mod n"
    by (rule mod_add_cong) (simp_all add: yc)
  finally have Td: "T mod n = d mod n" by simp
  have one': "g ^ nat n mod p = 1 mod p" using one by (simp add: n_def)
  have eq: "g ^ nat T mod p = g ^ nat d mod p"
    by (rule power_mod_cong_exp[OF one' n0 T0 nn(3) Td])
  have "nat T = nat w * nat u + nat y * nat c"
    using nn u0 c0 by (simp add: T_def nat_add_distrib nat_mult_distrib)
  then have "g ^ nat T = (g ^ nat w) ^ nat u * (g ^ nat y) ^ nat c"
    by (simp add: power_add power_mult)
  then have "g ^ nat T mod p =
      (((g ^ nat w mod p) ^ nat u mod p) * ((g ^ nat y mod p) ^ nat c mod p)) mod p"
    by (simp add: power_mod mod_simps)
  with eq show ?thesis by (simp only: u_def c_def n_def)
qed

text \<open>
  Claim C2. For every honest Payment over a well-formed scheme (\<open>p\<close> prime, \<open>g\<close> in
  \<open>[2, p - 1]\<close>): when the coin's Elgamal keys were derived as \<^verbatim>\<open>coin.elgamal\<close> does
  (\<open>w = (contract || e) mod p\<close>, \<open>alpha = g ^ w mod p\<close>, \<open>u = g ^ y mod p\<close>) with
  \<open>y * yInv\<close> congruent to 1 modulo \<open>p - 1\<close>, the Merchant stamps the coin's profile with
  \<open>Stamp\<close> and the Spender answers with \<open>SignCoin\<close> on that message, then \<open>SignCoin\<close> returns
  and \<open>VerifyElgamal\<close> on the stamped profile and the answer is true.
\<close>

theorem honest_payment_verifies:
  assumes sch: "wfScheme (bp_Scheme bank)"
    and same: "bp_Scheme (cl_Bank spender) = bp_Scheme bank"
    and w: "eg_Priv (coin_Elgamal coin) =
              concatenateBigInts (cl_Contract spender) (rnd_E (coin_Random coin))
                mod scheme_P (bp_Scheme bank)"
    and a: "eg_Pub (coin_Elgamal coin) =
              scheme_G (bp_Scheme bank) ^ nat (eg_Priv (coin_Elgamal coin))
                mod scheme_P (bp_Scheme bank)"
    and u: "eg_First (coin_Elgamal coin) =
              scheme_G (bp_Scheme bank) ^ nat (rnd_Y (coin_Random coin))
                mod scheme_P (bp_Scheme bank)"
    and y: "0 \<le> rnd_Y (coin_Random coin)"
    and inv: "(rnd_Y (coin_Random coin) * rnd_YInv (coin_Random coin))
                mod (scheme_P (bp_Scheme bank) - 1) = 1 mod (scheme_P (bp_Scheme bank) - 1)"
  shows "\<exists>msg stamped second signed.
           Stamp lib now (Coin_Profile coin) bank merchant = (msg, stamped) \<and>
           SignCoin spender coin msg = Some (second, signed) \<and>
           VerifyElgamal stamped bank second = Some True"
proof -
  define p where "p = scheme_P (bp_Scheme bank)"
  define g where "g = scheme_G (bp_Scheme bank)"
  define wv where "wv = eg_Priv (coin_Elgamal coin)"
  define yv where "yv = rnd_Y (coin_Random coin)"
  define yInv where "yInv = rnd_YInv (coin_Random coin)"
  note defs = p_def g_def wv_def yv_def yInv_def
  from sch have pr: "isPrime (nat p)" and g2: "2 \<le> g" and gp: "g \<le> p - 1"
    by (auto simp: wfScheme_def defs)
  have p1: "1 < p" using pr by (rule isPrime_gt1)
  have "\<not> p dvd g" using g2 gp by (simp add: zdvd_not_zless)
  then have one: "g ^ nat (p - 1) mod p = 1 mod p"
    using fermat_little_int[OF pr] p1 by simp
  have w0: "0 \<le> wv" using w p1 by (simp add: defs)
  define msg where "msg = bigSetBytes (Sum256 lib
                  (bigBytes (prof_Pub (Coin_Profile coin)) @ bigBytes (prof_First (Coin_Profile coin)) @
                   bigBytes (cp_TradeId merchant) @ MarshalBinary lib now))"
  define stamped where "stamped = (Coin_Profile coin)\<lparr>prof_Msg := Some msg\<rparr>"
  define second where "second = ((msg - wv * (g ^ nat yv mod p)) * yInv) mod (p - 1)"
  define signed where "signed = coin\<lparr>coin_Elgamal :=
      (coin_Elgamal coin)\<lparr>eg_Msg := Some msg, eg_Second := Some second\<rparr>\<rparr>"
  have m0: "0 \<le> msg" by (simp add: msg_def bigSetBytes_nonneg)
  have s0: "0 \<le> second" using p1 by (simp add: second_def)
  have u0: "0 \<le> g ^ nat yv mod p" using p1 by simp
  have st: "Stamp lib now (Coin_Profile coin) bank merchant = (msg, stamped)"
    by (simp add: Stamp_def Let_def msg_def stamped_def)
  have sg: "SignCoin spender coin msg = Some (second, signed)"
    using p1
    by (simp add: SignCoin_def Let_def same bigMod_pos second_def signed_def u[unfolded defs[symmetric]]
        defs[symmetric])
  have idn: "(((g ^ nat wv mod p) ^ nat (g ^ nat yv mod p) mod p) *
          ((g ^ nat yv mod p) ^ nat second mod p)) mod p = g ^ nat msg mod p"
    unfolding second_def
    by (rule elgamal_identity[OF one p1 w0 _ m0]) (use y inv in \<open>simp_all add: defs\<close>)
  have ve: "VerifyElgamal stamped bank second = Some True"
    using p1 s0 m0 u0 idn
    by (simp add: VerifyElgamal_def Let_def stamped_def Coin_Profile_def bigMod_pos bigExp_pos
        a[unfolded defs[symmetric]] u[unfolded defs[symmetric]] defs[symmetric])
  from st sg ve show ?thesis by blast
qed


text \<open>Witness for C2: the example coin, stamped by a Merchant with trade id 12.\<close>

theorem honest_payment_witness:
  "wfScheme (bp_Scheme (Bank_Profile exBank)) \<and>
   (rnd_Y exRandom * rnd_YInv exRandom) mod 22 = 1 \<and>
   (\<exists>msg stamped second signed.
      Stamp exLib exNow (Coin_Profile exCoin) (Bank_Profile exBank) exProfile = (msg, stamped) \<and>
      SignCoin exClient exCoin msg = Some (second, signed) \<and>
      VerifyElgamal stamped (Bank_Profile exBank) second = Some True)"
proof -
  have sch: "wfScheme (bp_Scheme (Bank_Profile exBank))" by code_simp
  have same: "bp_Scheme (cl_Bank exClient) = bp_Scheme (Bank_Profile exBank)" by code_simp
  have w: "eg_Priv (coin_Elgamal exCoin) =
      concatenateBigInts (cl_Contract exClient) (rnd_E (coin_Random exCoin))
        mod scheme_P (bp_Scheme (Bank_Profile exBank))" by code_simp
  have a: "eg_Pub (coin_Elgamal exCoin) =
      scheme_G (bp_Scheme (Bank_Profile exBank)) ^ nat (eg_Priv (coin_Elgamal exCoin))
        mod scheme_P (bp_Scheme (Bank_Profile exBank))" by code_simp
  have u: "eg_First (coin_Elgamal exCoin) =
      scheme_G (bp_Scheme (Bank_Profile exBank)) ^ nat (rnd_Y (coin_Random exCoin))
        mod scheme_P (bp_Scheme (Bank_Profile exBank))" by code_simp
  have y: "0 \<le> rnd_Y (coin_Random exCoin)" by code_simp
  have inv: "(rnd_Y (coin_Random exCoin) * rnd_YInv (coin_Random exCoin))
      mod (scheme_P (bp_Scheme (Bank_Profile exBank)) - 1) =
      1 mod (scheme_P (bp_Scheme (Bank_Profile exBank)) - 1)" by code_simp
  have inv': "(rnd_Y exRandom * rnd_YInv exRandom) mod 22 = 1" by code_simp
  from honest_payment_verifies[OF sch same w a u y inv, where lib = exLib and now = exNow
      and merchant = exProfile] sch inv'
  show ?thesis by blast
qed

section \<open>The Bank's handlers: requests that are not served\<close>

lemma exBankStore_written:
  "snd (WriteClientInfo exLib
     (snd (WriteBank
        \<lparr>bs_Bank = emptyTable, bs_ClientInfo = emptyTable, bs_CoinProfile = emptyTable,
         bs_Name = [], bs_identity = ''main''\<rparr> exBank ''bancoco''))
     exInfo) = exBankStore"
  by code_simp

text \<open>
  Claim C4. A Withdrawal request (a client profile followed by a coin request) from a
  registered client whose stored balance is less than 1 gets no response, and the Bank's
  store, the client's balance included, is left as it was; when the Bank's identity can be
  read the handler returns after logging, without terminating the process.
\<close>

theorem withdrawal_without_funds_is_silent:
  assumes msgs: "incoming conn = MsgClientProfile client # MsgCoinRequest ALower C # rest"
    and reg: "ReadClientInfo lib store client = (Some info, None)"
    and bal: "ReadClientBalance lib store client = (balance, None)"
    and low: "balance <s 1"
  shows "fst (snd (WithdrawalServer_handleClient lib now store conn)) = store \<and>
         sent (snd (snd (WithdrawalServer_handleClient lib now store conn))) = sent conn \<and>
         fst (WithdrawalServer_handleClient lib now store conn) \<noteq> Finished \<and>
         (ReadBank store = (Some bank, None) \<longrightarrow>
            WithdrawalServer_handleClient lib now store conn =
              (Returned, store, conn\<lparr>incoming := rest\<rparr>))"
  using assms
  by (auto simp: WithdrawalServer_handleClient_def decodeClientProfile_def decodeCoinRequest_def
      split: option.splits prod.splits)

text \<open>Witness for C4: the example Client with balance 0 asks for a coin.\<close>

theorem withdrawal_without_funds_witness:
  "ReadClientBalance exLib exBrokeStore exProfile = (0, None) \<and>
   WithdrawalServer_handleClient exLib exNow exBrokeStore exWithdrawalConn =
     (Returned, exBrokeStore, exWithdrawalConn\<lparr>incoming := []\<rparr>) \<and>
   sent (snd (snd (WithdrawalServer_handleClient exLib exNow exBrokeStore exWithdrawalConn))) = []"
proof -
  have msgs: "incoming exWithdrawalConn = MsgClientProfile exProfile # MsgCoinRequest 29 8 # []"
    by code_simp
  have reg: "ReadClientInfo exLib exBrokeStore exProfile = (Some exInfo, None)" by code_simp
  have bal: "ReadClientBalance exLib exBrokeStore exProfile = (0, None)" by code_simp
  have low: "(0 :: 64 word) <s 1" by code_simp
  have bank: "ReadBank exBrokeStore = (Some exBank, None)" by code_simp
  have s0: "sent exWithdrawalConn = []" by code_simp
  from withdrawal_without_funds_is_silent[OF msgs reg bal low, of exNow exBank] bank bal s0
  show ?thesis by simp
qed

text \<open>
  The path of a repeated Deposit through the handler. For a registered client and a coin
  that passes \<open>VerifyProperties\<close> and whose hash is already in the \<^verbatim>\<open>CoinProfile\<close> table,
  \<open>ReadCoinProfile\<close> returns nil, which the handler's check for a coin already in the
  database lets through; \<open>WriteCoinProfile\<close> then returns \<^verbatim>\<open>ErrExistingCoin\<close>, which the
  handler answers with \<^verbatim>\<open>log.Fatalf\<close>. The store is unchanged and nothing is sent.
\<close>

lemma second_deposit_is_fatal:
  assumes bank: "ReadBank store = (Some bank, None)"
    and msgs: "incoming conn = MsgClientProfile client # MsgCoinProfile coin # rest"
    and reg: "ReadClientInfo lib store client = (Some info, None)"
    and valid: "VerifyProperties lib coin (Bank_Profile bank) = Some True"
    and dup: "ReadCoinProfile lib store coin = None"
  shows "DepositServer_handleClient lib now store conn =
           (Fatal, store, conn\<lparr>incoming := rest\<rparr>)"
  using assms
  by (auto simp: DepositServer_handleClient_def decodeClientProfile_def decodeCoinProfile_def
      ReadCoinProfile_def WriteCoinProfile_def Let_def
      split: option.splits prod.splits)

text \<open>The lemma at the paid example coin, deposited a second time.\<close>

lemma second_deposit_is_fatal_example:
  "ReadCoinProfile exLib exDepositedStore exPaidProfile = None \<and>
   DepositServer_handleClient exLib exNow exDepositedStore exDepositConn =
     (Fatal, exDepositedStore, exDepositConn\<lparr>incoming := []\<rparr>)"
proof -
  have bank: "ReadBank exDepositedStore = (Some exBank, None)" by code_simp
  have msgs: "incoming exDepositConn = MsgClientProfile exProfile # MsgCoinProfile exPaidProfile # []"
    by code_simp
  have reg: "ReadClientInfo exLib exDepositedStore exProfile = (Some exInfo, None)" by code_simp
  have valid: "VerifyProperties exLib exPaidProfile (Bank_Profile exBank) = Some True" by code_simp
  have dup: "ReadCoinProfile exLib exDepositedStore exPaidProfile = None" by code_simp
  from second_deposit_is_fatal[OF bank msgs reg valid dup, of exNow] dup
  show ?thesis by simp
qed

text \<open>
  Claim C3 fails on the code. A coin whose hash is already in the \<^verbatim>\<open>CoinProfile\<close> table
  should be rejected at the protocol level, with the coin row unchanged, no acceptance
  sent and the Bank process still running. The first Deposit of the paid example coin is
  accepted and writes the coin row; the second Deposit of the same coin leaves the store
  unchanged and sends no acceptance, but the handler ends in \<^verbatim>\<open>log.Fatalf\<close>: the Bank
  process terminates.
\<close>

theorem second_deposit_terminates_the_bank:
  "fst (DepositServer_handleClient exLib exNow exBankStore exDepositConn) = Finished \<and>
   sent (snd (snd (DepositServer_handleClient exLib exNow exBankStore exDepositConn))) =
     [MsgAccept True] \<and>
   fst (snd (DepositServer_handleClient exLib exNow exBankStore exDepositConn)) = exDepositedStore \<and>
   fst (DepositServer_handleClient exLib exNow exDepositedStore exDepositConn) = Fatal \<and>
   sent (snd (snd (DepositServer_handleClient exLib exNow exDepositedStore exDepositConn))) = []"
  by code_simp

section \<open>The Bank's handlers: Deposit does not read the payment fields\<close>

lemma VerifyProperties_payment_fields:
  "VerifyProperties lib (coin\<lparr>prof_Second := second, prof_Msg := msg\<rparr>) bank =
   VerifyProperties lib coin bank"
  by (simp add: VerifyProperties_def Let_def cong: if_cong)

lemma CoinProfile_Hash_payment_fields:
  "CoinProfile_Hash lib (coin\<lparr>prof_Second := second, prof_Msg := msg\<rparr>) = CoinProfile_Hash lib coin"
  by (simp add: CoinProfile_Hash_def)

lemma find_balance_update:
  "find (\<lambda>(i, r). cie_hash r = h)
     (map (\<lambda>(i, r). if cie_hash r = h then (i, r\<lparr>cie_balance := b\<rparr>) else (i, r)) rows) =
   map_option (\<lambda>(i, r). (i, r\<lparr>cie_balance := b\<rparr>)) (find (\<lambda>(i, r). cie_hash r = h) rows)"
  by (induction rows) auto

lemma ReadClientBalance_after_update:
  assumes "ReadClientBalance lib store client = (balance, None)"
  shows "ReadClientBalance lib (snd (UpdateClientBalance lib store client b)) client = (b, None)"
  using assms
  by (auto simp: ReadClientBalance_def UpdateClientBalance_def selectFirst_def Let_def
      find_balance_update split: option.splits)

lemma ReadClientBalance_after_WriteCoinProfile:
  "ReadClientBalance lib (snd (WriteCoinProfile lib now store coin operation c)) client =
   ReadClientBalance lib store client"
  by (simp add: ReadClientBalance_def WriteCoinProfile_def Let_def split: option.splits)

lemma find_snoc_hit: "P x \<Longrightarrow> find P (xs @ [x]) \<noteq> None"
  by (induction xs) auto

lemma ReadCoinProfile_after_WriteCoinProfile:
  "ReadCoinProfile lib (snd (WriteCoinProfile lib now store coin operation c)) coin = None"
proof (cases "selectFirst (\<lambda>r. cpe_hash r = CoinProfile_Hash lib coin) (bs_CoinProfile store)")
  case None
  let ?row = "\<lparr>cpe_hash = CoinProfile_Hash lib coin, cpe_coin = coin, cpe_operation = operation,
               cpe_client = ClientProfile_Hash lib c, cpe_date = now\<rparr>"
  have "find (\<lambda>(i, r). cpe_hash r = CoinProfile_Hash lib coin)
          (tbl_rows (bs_CoinProfile store) @ [(tbl_seq (bs_CoinProfile store) + 1, ?row)]) \<noteq> None"
    by (rule find_snoc_hit) simp
  with None show ?thesis
    by (auto simp: ReadCoinProfile_def WriteCoinProfile_def Let_def selectFirst_def insertRow_def
        split: option.splits)
next
  case (Some found)
  then show ?thesis
    by (simp add: ReadCoinProfile_def WriteCoinProfile_def Let_def)
qed

lemma ReadCoinProfile_after_update:
  "ReadCoinProfile lib (snd (UpdateClientBalance lib store client b)) coin =
   ReadCoinProfile lib store coin"
  by (simp add: ReadCoinProfile_def UpdateClientBalance_def Let_def)

lemma WriteCoinProfile_fresh:
  assumes "ReadCoinProfile lib store coin = Some ErrNoRows"
  shows "fst (WriteCoinProfile lib now store coin operation c) = None"
  using assms
  by (auto simp: ReadCoinProfile_def WriteCoinProfile_def Let_def split: option.splits)

lemma ReadCoinProfile_payment_fields:
  "ReadCoinProfile lib store (coin\<lparr>prof_Second := second, prof_Msg := msg\<rparr>) =
   ReadCoinProfile lib store coin"
  by (simp add: ReadCoinProfile_def CoinProfile_Hash_payment_fields)

text \<open>
  Claim C5, as amended. The Deposit handler does not look at \<open>msg\<close> and \<open>second\<close>: a coin
  from a registered client that passes \<open>VerifyProperties\<close> and whose hash is not yet in the
  \<^verbatim>\<open>CoinProfile\<close> table is accepted whatever its \<open>msg\<close> and \<open>second\<close> are (0 and nil
  included): the coin row is written, the client's balance is incremented and
  \<open>accept = true\<close> is sent.
\<close>

theorem deposit_ignores_msg_and_second:
  assumes bank: "ReadBank store = (Some bank, None)"
    and msgs: "incoming conn =
                 MsgClientProfile client #
                 MsgCoinProfile (coin\<lparr>prof_Second := second, prof_Msg := msg\<rparr>) # rest"
    and reg: "ReadClientInfo lib store client = (Some info, None)"
    and bal: "ReadClientBalance lib store client = (balance, None)"
    and valid: "VerifyProperties lib coin (Bank_Profile bank) = Some True"
    and fresh: "ReadCoinProfile lib store coin = Some ErrNoRows"
    and peer: "peerOpen conn"
  shows "\<exists>store'.
           DepositServer_handleClient lib now store conn =
             (Finished, store', conn\<lparr>incoming := rest, sent := sent conn @ [MsgAccept True]\<rparr>) \<and>
           ReadCoinProfile lib store' coin = None \<and>
           ReadClientBalance lib store' client = (balance + 1, None)"
proof -
  let ?c = "coin\<lparr>prof_Second := second, prof_Msg := msg\<rparr>"
  define w where "w = WriteCoinProfile lib now store ?c Operation_Deposit client"
  define store1 where "store1 = snd w"
  define store2 where "store2 = snd (UpdateClientBalance lib store1 client (balance + 1))"
  have fresh': "ReadCoinProfile lib store ?c = Some ErrNoRows"
    using fresh by (simp add: ReadCoinProfile_payment_fields)
  have w1: "w = (None, store1)"
    using WriteCoinProfile_fresh[OF fresh', of now Operation_Deposit client]
    by (simp add: w_def store1_def prod_eq_iff)
  have bal1: "ReadClientBalance lib store1 client = (balance, None)"
    using bal by (simp add: store1_def w_def ReadClientBalance_after_WriteCoinProfile)
  have upd: "UpdateClientBalance lib store1 client (balance + 1) = (None, store2)"
    by (simp add: store2_def UpdateClientBalance_def Let_def)
  have run: "DepositServer_handleClient lib now store conn =
      (Finished, store2, conn\<lparr>incoming := rest, sent := sent conn @ [MsgAccept True]\<rparr>)"
    using bank msgs reg valid fresh' peer w1 bal1 upd
    by (simp add: DepositServer_handleClient_def decodeClientProfile_def decodeCoinProfile_def
        encode_def Let_def VerifyProperties_payment_fields w_def[symmetric])
  have "ReadCoinProfile lib store1 ?c = None"
    unfolding store1_def w_def by (rule ReadCoinProfile_after_WriteCoinProfile)
  then have dup: "ReadCoinProfile lib store2 coin = None"
    by (simp add: store2_def ReadCoinProfile_after_update ReadCoinProfile_payment_fields)
  have bal2: "ReadClientBalance lib store2 client = (balance + 1, None)"
    unfolding store2_def by (rule ReadClientBalance_after_update[OF bal1])
  from run dup bal2 show ?thesis by blast
qed

text \<open>Witness for C5: the Deposit of the example coin with \<open>msg = 0\<close> and \<open>second = 0\<close>.\<close>

theorem deposit_ignores_msg_and_second_witness:
  "VerifyProperties exLib (Coin_Profile exCoin) (Bank_Profile exBank) = Some True \<and>
   ReadCoinProfile exLib exBankStore (Coin_Profile exCoin) = Some ErrNoRows \<and>
   (\<exists>store'.
      DepositServer_handleClient exLib exNow exBankStore exUnpaidConn =
        (Finished, store', exUnpaidConn\<lparr>incoming := [], sent := sent exUnpaidConn @ [MsgAccept True]\<rparr>) \<and>
      ReadCoinProfile exLib store' (Coin_Profile exCoin) = None \<and>
      ReadClientBalance exLib store' exProfile = (100 + 1, None))"
proof -
  have bank: "ReadBank exBankStore = (Some exBank, None)" by code_simp
  have msgs: "incoming exUnpaidConn =
      MsgClientProfile exProfile #
      MsgCoinProfile ((Coin_Profile exCoin)\<lparr>prof_Second := Some 0, prof_Msg := Some 0\<rparr>) # []"
    by code_simp
  have reg: "ReadClientInfo exLib exBankStore exProfile = (Some exInfo, None)" by code_simp
  have bal: "ReadClientBalance exLib exBankStore exProfile = (100, None)" by code_simp
  have valid: "VerifyProperties exLib (Coin_Profile exCoin) (Bank_Profile exBank) = Some True"
    by code_simp
  have fresh: "ReadCoinProfile exLib exBankStore (Coin_Profile exCoin) = Some ErrNoRows"
    by code_simp
  have peer: "peerOpen exUnpaidConn" by code_simp
  from deposit_ignores_msg_and_second[OF bank msgs reg bal valid fresh peer, of exNow] valid fresh
  show ?thesis by blast
qed

text \<open>
  Counterexample to C5 as stated. The example coin submitted with \<open>msg = 0\<close> and
  \<open>second = 0\<close> is not rejected: the handler writes the coin row, raises the balance from
  100 to 101 and sends \<open>accept = true\<close>.
\<close>

theorem deposit_of_unpaid_coin_counterexample:
  "prof_Msg exUnpaidProfile = Some 0 \<and> prof_Second exUnpaidProfile = Some 0 \<and>
   fst (DepositServer_handleClient exLib exNow exBankStore exUnpaidConn) = Finished \<and>
   sent (snd (snd (DepositServer_handleClient exLib exNow exBankStore exUnpaidConn))) =
     [MsgAccept True] \<and>
   ReadClientBalance exLib
     (fst (snd (DepositServer_handleClient exLib exNow exBankStore exUnpaidConn))) exProfile =
     (101, None)"
  by code_simp

section \<open>The stores: idempotent writes and the wallet's balance\<close>

lemma selectFirst_after_insertRow:
  "P r \<Longrightarrow> selectFirst P (snd (insertRow t r)) \<noteq> None"
  by (simp add: selectFirst_def insertRow_def Let_def find_snoc_hit)

lemma WriteBank_finds_identity:
  "selectFirst (\<lambda>r. be_identity r = bs_identity store) (bs_Bank (snd (WriteBank store bank name)))
     \<noteq> None"
proof (cases "selectFirst (\<lambda>r. be_identity r = bs_identity store) (bs_Bank store)")
  case None
  then show ?thesis
    using selectFirst_after_insertRow[of "\<lambda>r. be_identity r = bs_identity store"
        "\<lparr>be_name = name, be_identity = bs_identity store, be_bank = bank\<rparr>" "bs_Bank store"]
    by (simp add: WriteBank_def Let_def)
next
  case (Some found)
  then show ?thesis by (simp add: WriteBank_def Let_def)
qed

lemma WriteBank_identity: "bs_identity (snd (WriteBank store bank name)) = bs_identity store"
  by (simp add: WriteBank_def Let_def split: option.splits)

lemma WriteBank_noop:
  assumes "selectFirst (\<lambda>r. be_identity r = bs_identity store) (bs_Bank store) \<noteq> None"
  shows "WriteBank store bank name = (None, store\<lparr>bs_Name := name\<rparr>)"
  using assms by (auto simp: WriteBank_def Let_def split: option.splits)

lemma insertChild_parent:
  "ref \<in> set parents \<Longrightarrow> insertChild parents t ref r l \<noteq> None"
  by (simp add: insertChild_def split: prod.splits)

lemma WriteClient_finds_bank:
  "selectFirst (\<lambda>r. ce_bank r = cs_BankName store) (w_Client (cs_db (snd (WriteClient store client))))
     \<noteq> None"
proof (cases "selectFirst (\<lambda>r. ce_bank r = cs_BankName store) (w_Client (cs_db store))")
  case None
  let ?row = "\<lparr>ce_bank = cs_BankName store, ce_TradeId = cl_TradeId client,
               ce_Priv = cl_Priv client, ce_Pub = cl_Pub client,
               ce_Credential = cl_Credential client, ce_Contract = cl_Contract client,
               ce_localBalance = 0, ce_remoteBalance = 100\<rparr>"
  obtain i clients where ins: "insertRow (w_Client (cs_db store)) ?row = (i, clients)"
    by (cases "insertRow (w_Client (cs_db store)) ?row")
  have found: "selectFirst (\<lambda>r. ce_bank r = cs_BankName store) clients \<noteq> None"
    using selectFirst_after_insertRow[of "\<lambda>r. ce_bank r = cs_BankName store" ?row
        "w_Client (cs_db store)"] ins by simp
  have mem: "i \<in> set (rowIds clients)"
    using ins by (auto simp: insertRow_def Let_def rowIds_def)
  obtain profiles l1 where p: "insertChild (rowIds clients) (w_BankProfile (cs_db store)) i
      (cl_Bank client) i = Some (profiles, l1)"
    using insertChild_parent[OF mem] by (metis not_None_eq surj_pair)
  obtain keys l2 where k: "insertChild (rowIds clients) (w_RsaKey (cs_db store)) i
      (cl_Key client) l1 = Some (keys, l2)"
    using insertChild_parent[OF mem] by (metis not_None_eq surj_pair)
  from None ins p k found show ?thesis
    by (simp add: WriteClient_def Let_def)
next
  case (Some found)
  then show ?thesis by (simp add: WriteClient_def Let_def)
qed

lemma WriteClient_BankName: "cs_BankName (snd (WriteClient store client)) = cs_BankName store"
  by (auto simp: WriteClient_def Let_def split: option.splits prod.splits)

lemma WriteClient_noop:
  assumes "selectFirst (\<lambda>r. ce_bank r = cs_BankName store) (w_Client (cs_db store)) \<noteq> None"
  shows "WriteClient store client = (None, store)"
  using assms by (auto simp: WriteClient_def Let_def split: option.splits)

text \<open>
  Claim C9. A second \<open>WriteBank\<close> on the same store (hence for the same identity), with
  whatever Bank and name, returns nil and leaves the \<^verbatim>\<open>Bank\<close> table as the first call left
  it; a second \<open>WriteClient\<close> on the same store (hence for the same \<^verbatim>\<open>BankName\<close>) returns
  nil and leaves the \<^verbatim>\<open>Client\<close> table, and every other table of the wallet, unchanged.
\<close>

theorem second_write_is_a_noop:
  "fst (WriteBank (snd (WriteBank store bank name)) bank' name') = None \<and>
   bs_Bank (snd (WriteBank (snd (WriteBank store bank name)) bank' name')) =
     bs_Bank (snd (WriteBank store bank name)) \<and>
   fst (WriteClient (snd (WriteClient wallet client)) client') = None \<and>
   w_Client (cs_db (snd (WriteClient (snd (WriteClient wallet client)) client'))) =
     w_Client (cs_db (snd (WriteClient wallet client))) \<and>
   cs_db (snd (WriteClient (snd (WriteClient wallet client)) client')) =
     cs_db (snd (WriteClient wallet client))"
proof -
  have "selectFirst (\<lambda>r. be_identity r = bs_identity (snd (WriteBank store bank name)))
          (bs_Bank (snd (WriteBank store bank name))) \<noteq> None"
    using WriteBank_finds_identity[of store bank name] by (simp add: WriteBank_identity)
  then have b: "WriteBank (snd (WriteBank store bank name)) bank' name' =
      (None, (snd (WriteBank store bank name))\<lparr>bs_Name := name'\<rparr>)"
    by (rule WriteBank_noop)
  have "selectFirst (\<lambda>r. ce_bank r = cs_BankName (snd (WriteClient wallet client)))
          (w_Client (cs_db (snd (WriteClient wallet client)))) \<noteq> None"
    using WriteClient_finds_bank[of wallet client] by (simp add: WriteClient_BankName)
  then have c: "WriteClient (snd (WriteClient wallet client)) client' =
      (None, snd (WriteClient wallet client))"
    by (rule WriteClient_noop)
  from b c show ?thesis by simp
qed

text \<open>
  Where the statement of a wallet method does change the \<^verbatim>\<open>Coin\<close> table, the counter
  follows it: \<open>WriteCoin\<close> of a coin whose hash is new adds one row and 1 to
  \<^verbatim>\<open>localBalance\<close>, and \<open>DeleteCoin\<close> of a coin whose row belongs to the store's client
  removes one row and subtracts 1.
\<close>

lemma find_localBalance_update:
  "find (\<lambda>(i, r). i = c)
     (map (\<lambda>(i, r). if i = c then (i, r\<lparr>ce_localBalance := ce_localBalance r + d\<rparr>) else (i, r)) rows) =
   map_option (\<lambda>(i, r). (i, r\<lparr>ce_localBalance := ce_localBalance r + d\<rparr>))
     (find (\<lambda>(i, r). i = c) rows)"
  by (induction rows) auto

lemma find_remoteBalance_update:
  "find (\<lambda>(i, r). i = c)
     (map (\<lambda>(i, r). if i = c then (i, r\<lparr>ce_remoteBalance := ce_remoteBalance r + d\<rparr>) else (i, r)) rows) =
   map_option (\<lambda>(i, r). (i, r\<lparr>ce_remoteBalance := ce_remoteBalance r + d\<rparr>))
     (find (\<lambda>(i, r). i = c) rows)"
  by (induction rows) auto

lemma localBalance_addLocalBalance:
  "localBalance (store\<lparr>cs_db := addLocalBalance D (cs_clientId store) d\<rparr>) =
   map_option (\<lambda>b. b + d) (localBalance (store\<lparr>cs_db := D\<rparr>))"
  by (cases "find (\<lambda>(i, r). i = cs_clientId store) (tbl_rows (w_Client D))")
     (auto simp: localBalance_def addLocalBalance_def find_localBalance_update)

lemma localBalance_addRemoteBalance:
  "localBalance (store\<lparr>cs_db := addRemoteBalance D (cs_clientId store) d\<rparr>) =
   localBalance (store\<lparr>cs_db := D\<rparr>)"
  by (cases "find (\<lambda>(i, r). i = cs_clientId store) (tbl_rows (w_Client D))")
     (auto simp: localBalance_def addRemoteBalance_def find_remoteBalance_update)

lemma localBalance_same_clients:
  "w_Client D = w_Client (cs_db store) \<Longrightarrow> localBalance (store\<lparr>cs_db := D\<rparr>) = localBalance store"
  by (simp add: localBalance_def)

lemma coinCount_addLocalBalance:
  "coinCount (store\<lparr>cs_db := addLocalBalance D c d\<rparr>) = coinCount (store\<lparr>cs_db := D\<rparr>)"
  by (simp add: coinCount_def addLocalBalance_def)

lemma coinCount_addRemoteBalance:
  "coinCount (store\<lparr>cs_db := addRemoteBalance D c d\<rparr>) = coinCount (store\<lparr>cs_db := D\<rparr>)"
  by (simp add: coinCount_def addRemoteBalance_def)

lemma DeleteCoin_present:
  assumes row: "filter (\<lambda>(i, (c, hh)). hh = CoinProfile_Hash lib (Coin_Profile coin))
                  (tbl_rows (w_Coin (cs_db store))) =
                [(i, (cs_clientId store, CoinProfile_Hash lib (Coin_Profile coin)))]"
    and bal: "localBalance store = Some b"
  shows "fst (DeleteCoin lib store coin operation) = None \<and>
         localBalance (snd (DeleteCoin lib store coin operation)) = Some (b - 1) \<and>
         coinCount (snd (DeleteCoin lib store coin operation)) = coinCount store - 1"
proof -
  define h where "h = CoinProfile_Hash lib (Coin_Profile coin)"
  define rows where "rows = tbl_rows (w_Coin (cs_db store))"
  define cid where "cid = cs_clientId store"
  let ?P = "\<lambda>(i :: int, (c :: int, hh :: 32 word)). c = cid"
  let ?Q = "\<lambda>(i :: int, (c :: int, hh :: 32 word)). hh = h"
  have row': "filter ?Q rows = [(i, (cid, h))]" using row by (simp add: h_def rows_def cid_def)
  have "length (filter ?P rows) =
        length (filter ?P (filter ?Q rows)) + length (filter ?P (filter (\<lambda>x. \<not> ?Q x) rows))"
    by (induction rows) auto
  then have cnt: "int (length (filter ?P (filter (\<lambda>x. \<not> ?Q x) rows))) = int (length (filter ?P rows)) - 1"
    by (simp add: row')
  have keep: "filter (\<lambda>(i, r). \<not> (case r of (c, hh) \<Rightarrow> hh = h)) rows = filter (\<lambda>x. \<not> ?Q x) rows"
    by (rule filter_cong) auto
  have lb: "localBalance (snd (DeleteCoin lib store coin operation)) = Some (b - 1)"
    using bal
    by (cases operation)
       (simp_all add: DeleteCoin_def Let_def localBalance_addLocalBalance
          localBalance_addRemoteBalance localBalance_same_clients)
  have cc: "coinCount (snd (DeleteCoin lib store coin operation)) = coinCount store - 1"
    using cnt keep
    by (cases operation)
       (simp_all add: DeleteCoin_def Let_def coinCount_addLocalBalance coinCount_addRemoteBalance,
        simp_all add: coinCount_def deleteWhere_def h_def[symmetric] rows_def[symmetric]
          cid_def[symmetric])
  show ?thesis using lb cc by (simp add: DeleteCoin_def Let_def)
qed


lemma WriteCoin_fresh:
  assumes client: "cs_clientId store \<in> set (rowIds (w_Client (cs_db store)))"
    and fresh: "CoinProfile_Hash lib (Coin_Profile coin) \<notin>
                  set (map (snd \<circ> snd) (tbl_rows (w_Coin (cs_db store))))"
    and bal: "localBalance store = Some b"
  shows "fst (WriteCoin lib store coin operation) = None \<and>
         localBalance (snd (WriteCoin lib store coin operation)) = Some (b + 1) \<and>
         coinCount (snd (WriteCoin lib store coin operation)) = coinCount store + 1"
proof -
  define db where "db = cs_db store"
  define cid where "cid = cs_clientId store"
  define h where "h = CoinProfile_Hash lib (Coin_Profile coin)"
  define i where "i = tbl_seq (w_Coin db) + 1"
  define coins where "coins = \<lparr>tbl_rows = tbl_rows (w_Coin db) @ [(i, (cid, h))], tbl_seq = i\<rparr>"
  define db1 where "db1 = db\<lparr>w_Coin := coins, w_lastRowid := i\<rparr>"
  have ins: "insertCoin db cid h = Some db1"
    using client fresh
    by (simp add: insertCoin_def insertRow_def Let_def db_def cid_def h_def i_def coins_def db1_def)
  have mem: "i \<in> set (rowIds (w_Coin db1))"
    by (simp add: db1_def coins_def rowIds_def)
  obtain randoms l2 where r: "insertChild (rowIds (w_Coin db1)) (w_CoinRandom db1) i
      (coin_Random coin) (w_lastRowid db1) = Some (randoms, l2)"
    using insertChild_parent[OF mem] by (metis not_None_eq surj_pair)
  obtain elgamals l3 where e: "insertChild (rowIds (w_Coin db1)) (w_CoinElgamal db1) i
      (coin_Elgamal coin) l2 = Some (elgamals, l3)"
    using insertChild_parent[OF mem] by (metis not_None_eq surj_pair)
  obtain params l4 where p: "insertChild (rowIds (w_Coin db1)) (w_CoinParams db1) i
      (coin_Params coin) l3 = Some (params, l4)"
    using insertChild_parent[OF mem] by (metis not_None_eq surj_pair)
  define db4 where "db4 = db1\<lparr>w_CoinRandom := randoms, w_CoinElgamal := elgamals,
                       w_CoinParams := params, w_lastRowid := l4\<rparr>"
  have li: "w_lastRowid db1 = i" by (simp add: db1_def)
  have run: "WriteCoin lib store coin operation =
      (None, store\<lparr>cs_db := (case operation of
          Operation_Withdrawal \<Rightarrow> addRemoteBalance (addLocalBalance db4 cid 1) cid (- 1)
        | _ \<Rightarrow> addLocalBalance db4 cid 1)\<rparr>)"
    using ins r e p
    by (cases operation)
       (simp_all add: WriteCoin_def Let_def db_def[symmetric] cid_def[symmetric] h_def[symmetric]
          li db4_def)
  have cl: "w_Client db4 = w_Client (cs_db store)" by (simp add: db4_def db1_def db_def)
  have lb4: "localBalance (store\<lparr>cs_db := db4\<rparr>) = Some b"
    using bal by (simp add: localBalance_same_clients[OF cl])
  have cc4: "coinCount (store\<lparr>cs_db := db4\<rparr>) = coinCount store + 1"
    by (simp add: coinCount_def db4_def db1_def coins_def db_def cid_def)
  show ?thesis
    using lb4 cc4 run
    by (cases operation)
       (simp_all add: cid_def localBalance_addLocalBalance localBalance_addRemoteBalance
          coinCount_addLocalBalance coinCount_addRemoteBalance)
qed

text \<open>
  Claim C8 fails on the code. \<open>DeleteCoin\<close> subtracts 1 from \<^verbatim>\<open>localBalance\<close> whether or not
  its \<^verbatim>\<open>DELETE\<close> removed a row, and \<open>WriteCoin\<close> adds 1 whether or not its \<^verbatim>\<open>INSERT\<close> was
  ignored for a hash that is already in the table. In a new wallet, deleting the example
  coin leaves no coin row and a balance of -1; writing the example coin twice leaves one
  coin row and a balance of 2.
\<close>

theorem wallet_balance_diverges_from_coin_count:
  "localBalance exWallet = Some 0 \<and> coinCount exWallet = 0 \<and>
   fst (DeleteCoin exLib exWallet exCoin Operation_Payment) = None \<and>
   localBalance (snd (DeleteCoin exLib exWallet exCoin Operation_Payment)) = Some (- 1) \<and>
   coinCount (snd (DeleteCoin exLib exWallet exCoin Operation_Payment)) = 0 \<and>
   fst (WriteCoin exLib (snd (WriteCoin exLib exWallet exCoin Operation_Payment)) exCoin
          Operation_Payment) = None \<and>
   localBalance (snd (WriteCoin exLib (snd (WriteCoin exLib exWallet exCoin Operation_Payment))
          exCoin Operation_Payment)) = Some 2 \<and>
   coinCount (snd (WriteCoin exLib (snd (WriteCoin exLib exWallet exCoin Operation_Payment))
          exCoin Operation_Payment)) = 1"
  by code_simp

end
